theory Spec2Isabelle
  imports Complex_Main "HOL-Library.Word" "HOL-Library.Sublist"
begin

unbundle bit_operations_syntax

section \<open>JavaScript values and array operations\<close>

text \<open>
  The engine is TypeScript. A \<open>number\<close> is modelled as a real: the arithmetic of the
  engine (sums, means, variances, quotients, square roots) is taken exactly, so rounding,
  overflow to \<open>Infinity\<close> and \<open>NaN\<close> are outside the model. Every division of the source
  whose divisor can be zero is guarded in the source or written out as a case here.
  Array lengths and counts are naturals.

  A string whose characters matter (a raw key, a hashed token) is a list of UTF-16 code
  units, as \<open>charCodeAt\<close> reads it. Labels that are only compared for equality are
  Isabelle strings.
\<close>

type_synonym number = real

type_synonym code_unit = "16 word"

type_synonym jsstring = "code_unit list"

definition str :: "string \<Rightarrow> jsstring" where
  "str s = map (\<lambda>c. word_of_nat (of_char c)) s"

text \<open>
  Decimal rendering of a non-negative integer, as \<open>String(n)\<close> gives for \<open>n < 1e21\<close>;
  \<open>digit\<close> is applied to values below 10 only.
\<close>

definition digit :: "nat \<Rightarrow> char" where
  "digit d = ''0123456789'' ! d"

fun decimal :: "nat \<Rightarrow> string" where
  "decimal n = (if n < 10 then [digit n] else decimal (n div 10) @ [digit (n mod 10)])"

declare decimal.simps [simp del]

text \<open>
  \<open>Array.prototype.slice\<close>: a negative index counts from the end, and both indices are
  clamped to the array.
\<close>

definition slice_index :: "nat \<Rightarrow> int \<Rightarrow> nat" where
  "slice_index len k = (if k < 0 then nat (max (int len + k) 0) else min (nat k) len)"

definition slice :: "'a list \<Rightarrow> int \<Rightarrow> int \<Rightarrow> 'a list" where
  "slice xs start end =
     (let s = slice_index (length xs) start; e = slice_index (length xs) end
      in take (e - s) (drop s xs))"

definition slice_from :: "'a list \<Rightarrow> int \<Rightarrow> 'a list" where
  "slice_from xs start = drop (slice_index (length xs) start) xs"

text \<open>\<open>push\<close> appends, \<open>shift\<close> removes the first element (and does nothing on \<open>[]\<close>).\<close>

definition push :: "'a list \<Rightarrow> 'a \<Rightarrow> 'a list" where
  "push xs x = xs @ [x]"

definition shift :: "'a list \<Rightarrow> 'a list" where
  "shift xs = tl xs"

text \<open>\<open>values.reduce((sum, v) => sum + v, 0)\<close>.\<close>

definition reduce_sum :: "number list \<Rightarrow> number" where
  "reduce_sum values = foldl (\<lambda>sum v. sum + v) 0 values"

text \<open>
  \<open>new Date(t).getTime()\<close> truncates the time value \<open>t\<close> towards zero (time values beyond
  the range of \<open>Date\<close>, 8.64e15 ms either way, are outside the model).
\<close>

definition newDate :: "number \<Rightarrow> number" where
  "newDate t = (if 0 \<le> t then of_int \<lfloor>t\<rfloor> else of_int \<lceil>t\<rceil>)"


section \<open>Keystroke timing analyzer\<close>

datatype event_type = keydown | keyup

record KeystrokeEvent =
  key :: jsstring
  timestamp :: number
  etype :: event_type
  ctrlKey :: bool
  shiftKey :: bool
  altKey :: bool

record TimingPattern =
  averageInterval :: number
  variance :: number
  rhythm :: "number list"
  pauseCount :: nat
  burstCount :: nat

text \<open>
  \<open>detectFatigueIndicators\<close> divides by the mean of the early rhythm without a guard:
  when that mean is zero and the recent mean is larger, JavaScript yields \<open>Infinity\<close>.
\<close>

datatype quotient = Finite number | Infinity

text \<open>
  \<open>KeystrokeMetrics\<close>; its fields carry the prefix \<open>km_\<close> because \<open>BehavioralMetrics\<close>
  below has fields of the same names.
\<close>

record KeystrokeMetrics =
  km_typingSpeed :: number
  km_pausePatterns :: "nat list"
  km_decisionTime :: number
  km_rhythmConsistency :: number
  km_fatigueIndicators :: quotient

record KeystrokeTimingAnalyzer =
  keyEvents :: "KeystrokeEvent list"
  timingBuffer :: "number list"

definition analyzerBufferSize :: nat where
  "analyzerBufferSize = 100"

definition pauseThreshold :: number where
  "pauseThreshold = 1000"

definition burstThreshold :: number where
  "burstThreshold = 100"

definition newKeystrokeTimingAnalyzer :: KeystrokeTimingAnalyzer where
  "newKeystrokeTimingAnalyzer = \<lparr>keyEvents = [], timingBuffer = []\<rparr>"

text \<open>
  \<open>hashKey\<close>: \<open>hash << 5\<close> is a 32-bit shift, and \<open>hash & hash\<close> brings
  \<open>(hash << 5) - hash + char\<close> back to 32 bits, so the loop is arithmetic modulo
  \<open>2 ^ 32\<close> on a 32-bit word read as signed. \<open>Math.abs\<close> is taken on the signed value,
  so the most negative word gives \<open>2 ^ 31\<close>.
\<close>

fun hashKey_loop :: "32 word \<Rightarrow> jsstring \<Rightarrow> 32 word" where
  "hashKey_loop hash [] = hash"
| "hashKey_loop hash (char # rest) =
     (let hash1 = (push_bit 5 hash - hash) + ucast char
      in hashKey_loop (hash1 AND hash1) rest)"

definition hashKey :: "jsstring \<Rightarrow> jsstring" where
  "hashKey k = str ''key_'' @ str (decimal (nat \<bar>sint (hashKey_loop 0 k)\<bar>))"

definition processKeystroke :: "KeystrokeEvent \<Rightarrow> KeystrokeTimingAnalyzer \<Rightarrow> KeystrokeTimingAnalyzer" where
  "processKeystroke event a =
     (let hashedEvent = event\<lparr>key := hashKey (key event)\<rparr>;
          evs1 = push (keyEvents a) hashedEvent;
          evs2 = (if length evs1 > analyzerBufferSize then shift evs1 else evs1);
          tb2 = (if length evs2 > 1
                 then (let interval = timestamp event - timestamp (evs2 ! (length evs2 - 2));
                           tb1 = push (timingBuffer a) interval
                       in if length tb1 > analyzerBufferSize then shift tb1 else tb1)
                 else timingBuffer a)
      in \<lparr>keyEvents = evs2, timingBuffer = tb2\<rparr>)"

text \<open>\<open>calculateMean\<close> is only called on non-empty arrays.\<close>

definition calculateMean :: "number list \<Rightarrow> number" where
  "calculateMean values = reduce_sum values / real (length values)"

definition calculateVariance :: "number list \<Rightarrow> number \<Rightarrow> number" where
  "calculateVariance values mean =
     (let squaredDiffs = map (\<lambda>val. (val - mean) ^ 2) values
      in calculateMean squaredDiffs)"

text \<open>The \<open>for\<close> loop of \<open>calculateRhythm\<close>, with \<open>windowSize = 5\<close>.\<close>

function calculateRhythm_loop :: "number list \<Rightarrow> nat \<Rightarrow> number list \<Rightarrow> number list" where
  "calculateRhythm_loop intervals i out =
     (if int i \<le> int (length intervals) - 5
      then calculateRhythm_loop intervals (i + 1)
             (push out (calculateMean (slice intervals (int i) (int i + 5))))
      else out)"
  by pat_completeness auto
termination
  by (relation "measure (\<lambda>(intervals, i, out). length intervals - i)") auto

declare calculateRhythm_loop.simps [simp del]

definition calculateRhythm :: "number list \<Rightarrow> number list" where
  "calculateRhythm intervals = calculateRhythm_loop intervals 0 []"

definition countPauses :: "number list \<Rightarrow> nat" where
  "countPauses intervals = length (filter (\<lambda>interval. interval > pauseThreshold) intervals)"

definition countBursts :: "number list \<Rightarrow> nat" where
  "countBursts intervals = length (filter (\<lambda>interval. interval < burstThreshold) intervals)"

definition getDefaultPattern :: TimingPattern where
  "getDefaultPattern =
     \<lparr>averageInterval = 0, variance = 0, rhythm = [], pauseCount = 0, burstCount = 0\<rparr>"

definition extractTimingPatterns :: "KeystrokeTimingAnalyzer \<Rightarrow> TimingPattern" where
  "extractTimingPatterns a =
     (if length (timingBuffer a) < 2 then getDefaultPattern
      else (let intervals = timingBuffer a;
                averageInterval = calculateMean intervals;
                variance = calculateVariance intervals averageInterval
            in \<lparr>averageInterval = averageInterval,
                variance = variance,
                rhythm = calculateRhythm intervals,
                pauseCount = countPauses intervals,
                burstCount = countBursts intervals\<rparr>))"

definition calculateTypingSpeed :: "KeystrokeTimingAnalyzer \<Rightarrow> number" where
  "calculateTypingSpeed a =
     (if length (keyEvents a) < 2 then 0
      else (let timeSpan = timestamp (last (keyEvents a)) - timestamp (hd (keyEvents a));
                minutes = timeSpan / (1000 * 60);
                keystrokes = real (length (keyEvents a))
            in if minutes > 0 then (keystrokes / 5) / minutes else 0))"

definition analyzePausePatterns :: "KeystrokeTimingAnalyzer \<Rightarrow> nat list" where
  "analyzePausePatterns a =
     (let pauses = filter (\<lambda>interval. interval > pauseThreshold) (timingBuffer a);
          shortPauses = length (filter (\<lambda>p. p < 2000) pauses);
          mediumPauses = length (filter (\<lambda>p. p \<ge> 2000 \<and> p < 5000) pauses);
          longPauses = length (filter (\<lambda>p. p \<ge> 5000) pauses)
      in [shortPauses, mediumPauses, longPauses])"

definition calculateDecisionTime :: "KeystrokeTimingAnalyzer \<Rightarrow> number" where
  "calculateDecisionTime a =
     (let pauses = filter (\<lambda>interval. interval > pauseThreshold) (timingBuffer a)
      in if length pauses > 0 then calculateMean pauses else 0)"

definition calculateRhythmConsistency :: "TimingPattern \<Rightarrow> number" where
  "calculateRhythmConsistency pattern =
     (if length (rhythm pattern) < 2 then 0
      else (let mean = calculateMean (rhythm pattern);
                variance = calculateVariance (rhythm pattern) mean;
                stdDev = sqrt variance
            in if mean > 0 then 1 - (stdDev / mean) else 0))"

definition detectFatigueIndicators :: "TimingPattern \<Rightarrow> quotient" where
  "detectFatigueIndicators pattern =
     (let recentRhythm = slice_from (rhythm pattern) (- 10);
          earlyRhythm = slice (rhythm pattern) 0 10
      in if length recentRhythm = 0 \<or> length earlyRhythm = 0 then Finite 0
         else (let recentMean = calculateMean recentRhythm;
                   earlyMean = calculateMean earlyRhythm
               in if recentMean > earlyMean
                  then (if earlyMean = 0 then Infinity
                        else Finite ((recentMean - earlyMean) / earlyMean))
                  else Finite 0))"

definition analyzeStatistics :: "KeystrokeTimingAnalyzer \<Rightarrow> KeystrokeMetrics" where
  "analyzeStatistics a =
     (let pattern = extractTimingPatterns a
      in \<lparr>km_typingSpeed = calculateTypingSpeed a,
          km_pausePatterns = analyzePausePatterns a,
          km_decisionTime = calculateDecisionTime a,
          km_rhythmConsistency = calculateRhythmConsistency pattern,
          km_fatigueIndicators = detectFatigueIndicators pattern\<rparr>)"

definition analyzer_clearData :: "KeystrokeTimingAnalyzer \<Rightarrow> KeystrokeTimingAnalyzer" where
  "analyzer_clearData a = \<lparr>keyEvents = [], timingBuffer = []\<rparr>"

section \<open>Behavioral actions\<close>

datatype ActionType = KEYSTROKE | MOUSE_CLICK | MOUSE_MOVE | CODE_EDIT | FILE_SWITCH | CONTEXT_SWITCH

text \<open>
  \<open>metadata\<close> is an open \<open>Record<string, any>\<close>. The engine reads the keys below and
  no other; an absent key is \<open>None\<close>. The three modifier flags are read as
  \<open>modifiers?.ctrl || false\<close>, so an absent flag is \<open>False\<close>.
\<close>

record Modifiers =
  ctrl :: bool
  shift_mod :: bool
  alt :: bool

record Metadata =
  md_hashedKey :: "jsstring option"
  md_eventType :: "event_type option"
  md_modifiers :: "Modifiers option"
  md_fileName :: "string option"
  md_to :: "string option"
  md_context :: "string option"
  md_reason :: "string option"

record BehavioralAction =
  a_type :: ActionType
  a_timestamp :: number
  a_duration :: number
  a_metadata :: Metadata

text \<open>\<open>v || d\<close> on an optional string: absent and empty strings are falsy.\<close>

definition or_default :: "'a list option \<Rightarrow> 'a list \<Rightarrow> 'a list" where
  "or_default v d = (case v of None \<Rightarrow> d | Some s \<Rightarrow> if s = [] then d else s)"

definition toBehavioralActions :: "KeystrokeTimingAnalyzer \<Rightarrow> BehavioralAction list" where
  "toBehavioralActions a =
     map (\<lambda>event.
            \<lparr>a_type = KEYSTROKE,
             a_timestamp = timestamp event,
             a_duration = 0,
             a_metadata =
               \<lparr>md_hashedKey = Some (key event),
                md_eventType = Some (etype event),
                md_modifiers = Some \<lparr>ctrl = ctrlKey event, shift_mod = shiftKey event, alt = altKey event\<rparr>,
                md_fileName = None, md_to = None, md_context = None, md_reason = None\<rparr>\<rparr>)
         (keyEvents a)"


section \<open>Metrics engine\<close>

record BehavioralMetrics =
  typingSpeed :: number
  pausePatterns :: "number list"
  decisionTime :: number
  contextSwitchCount :: nat
  fatigueLevel :: number

record TemporalMetrics =
  tm_timestamp :: number
  metrics :: BehavioralMetrics
  sessionId :: string
  tm_duration :: number

record FatigueIndicators =
  typingSpeedDecline :: number
  increasedPauseFrequency :: number
  rhythmInconsistency :: number
  overallFatigueScore :: number

record PatternStorage =
  userId :: string
  patterns :: "string \<rightharpoonup> TemporalMetrics list"
  currentSession :: string
  sessionStartTime :: number

record BehavioralMetricsEngine =
  keystrokeAnalyzer :: KeystrokeTimingAnalyzer
  patternStorage :: PatternStorage
  metricsHistory :: "TemporalMetrics list"

definition maxHistorySize :: nat where
  "maxHistorySize = 1000"

definition sessionTimeoutMs :: number where
  "sessionTimeoutMs = 30 * 60 * 1000"

definition fatigueWindowSize :: nat where
  "fatigueWindowSize = 10"

text \<open>
  The environment. \<open>Date.now()\<close> is an argument \<open>now\<close>, a count of milliseconds; one
  call of an operation reads the clock once. The suffix
  \<open>Math.random().toString(36).substr(2, 9)\<close> of a session id is an argument \<open>rnd\<close>.
\<close>

definition generateSessionId :: "nat \<Rightarrow> string \<Rightarrow> string" where
  "generateSessionId now rnd = ''session_'' @ decimal now @ ''_'' @ rnd"

definition newBehavioralMetricsEngine :: "nat \<Rightarrow> string \<Rightarrow> string \<Rightarrow> BehavioralMetricsEngine" where
  "newBehavioralMetricsEngine now rnd uid =
     \<lparr>keystrokeAnalyzer = newKeystrokeTimingAnalyzer,
      patternStorage =
        \<lparr>userId = uid,
         patterns = Map.empty,
         currentSession = generateSessionId now rnd,
         sessionStartTime = real now\<rparr>,
      metricsHistory = []\<rparr>"

definition getSessionDuration :: "nat \<Rightarrow> BehavioralMetricsEngine \<Rightarrow> number" where
  "getSessionDuration now e = real now - sessionStartTime (patternStorage e)"

definition getDefaultFatigueIndicators :: FatigueIndicators where
  "getDefaultFatigueIndicators =
     \<lparr>typingSpeedDecline = 0,
      increasedPauseFrequency = 0,
      rhythmInconsistency = 0,
      overallFatigueScore = 0\<rparr>"

definition calculateAverageTypingSpeed :: "TemporalMetrics list \<Rightarrow> number" where
  "calculateAverageTypingSpeed ms =
     (if length ms = 0 then 0
      else foldl (\<lambda>sum m. sum + typingSpeed (metrics m)) 0 ms / real (length ms))"

definition calculateAveragePauseFrequency :: "TemporalMetrics list \<Rightarrow> number" where
  "calculateAveragePauseFrequency ms =
     (if length ms = 0 then 0
      else (let totalPauses =
                  foldl (\<lambda>sum m. sum + foldl (\<lambda>pSum p. pSum + p) 0 (pausePatterns (metrics m))) 0 ms
            in totalPauses / real (length ms)))"

definition calculateAverageRhythmConsistency :: "TemporalMetrics list \<Rightarrow> number" where
  "calculateAverageRhythmConsistency ms =
     (if length ms = 0 then 0
      else (let decisionTimes = map (\<lambda>m. decisionTime (metrics m)) ms;
                mean = foldl (\<lambda>sum dt. sum + dt) 0 decisionTimes / real (length decisionTimes);
                variance = foldl (\<lambda>sum dt. sum + (dt - mean) ^ 2) 0 decisionTimes
                             / real (length decisionTimes);
                stdDev = sqrt variance
            in if mean > 0 then 1 - (stdDev / mean) else 0))"

definition detectFatigue :: "BehavioralMetricsEngine \<Rightarrow> FatigueIndicators" where
  "detectFatigue e =
     (if length (metricsHistory e) < fatigueWindowSize then getDefaultFatigueIndicators
      else (let recentMetrics = slice_from (metricsHistory e) (- int fatigueWindowSize);
                earlierMetrics =
                  slice (metricsHistory e)
                    (max 0 (int (length (metricsHistory e)) - int fatigueWindowSize * 2))
                    (- int fatigueWindowSize)
            in if length earlierMetrics = 0 then getDefaultFatigueIndicators
               else (let recentAvgSpeed = calculateAverageTypingSpeed recentMetrics;
                         earlierAvgSpeed = calculateAverageTypingSpeed earlierMetrics;
                         recentAvgPauses = calculateAveragePauseFrequency recentMetrics;
                         earlierAvgPauses = calculateAveragePauseFrequency earlierMetrics;
                         recentRhythmConsistency = calculateAverageRhythmConsistency recentMetrics;
                         earlierRhythmConsistency = calculateAverageRhythmConsistency earlierMetrics;
                         typingSpeedDecline =
                           (if earlierAvgSpeed > 0
                            then max 0 ((earlierAvgSpeed - recentAvgSpeed) / earlierAvgSpeed) else 0);
                         increasedPauseFrequency =
                           (if earlierAvgPauses > 0
                            then max 0 ((recentAvgPauses - earlierAvgPauses) / earlierAvgPauses) else 0);
                         rhythmInconsistency =
                           (if earlierRhythmConsistency > 0
                            then max 0 ((earlierRhythmConsistency - recentRhythmConsistency)
                                         / earlierRhythmConsistency)
                            else 0);
                         overallFatigueScore =
                           (typingSpeedDecline + increasedPauseFrequency + rhythmInconsistency) / 3
                     in \<lparr>typingSpeedDecline = typingSpeedDecline,
                         increasedPauseFrequency = increasedPauseFrequency,
                         rhythmInconsistency = rhythmInconsistency,
                         overallFatigueScore = overallFatigueScore\<rparr>)))"

definition startNewSession :: "nat \<Rightarrow> string \<Rightarrow> BehavioralMetricsEngine \<Rightarrow> BehavioralMetricsEngine" where
  "startNewSession now rnd e =
     e\<lparr>patternStorage :=
          (patternStorage e)\<lparr>currentSession := generateSessionId now rnd,
                             sessionStartTime := real now\<rparr>,
       keystrokeAnalyzer := analyzer_clearData (keystrokeAnalyzer e)\<rparr>"

definition storeMetrics ::
  "nat \<Rightarrow> string \<Rightarrow> BehavioralMetrics \<Rightarrow> BehavioralMetricsEngine \<Rightarrow> BehavioralMetricsEngine" where
  "storeMetrics now rnd m e =
     (let temporalMetrics =
            \<lparr>tm_timestamp = real now,
             metrics = m,
             sessionId = currentSession (patternStorage e),
             tm_duration = getSessionDuration now e\<rparr>;
          h1 = push (metricsHistory e) temporalMetrics;
          h2 = (if length h1 > maxHistorySize then shift h1 else h1);
          e1 = e\<lparr>metricsHistory := h2\<rparr>
      in if getSessionDuration now e1 > sessionTimeoutMs then startNewSession now rnd e1 else e1)"

definition countContextSwitches :: "BehavioralAction list \<Rightarrow> nat" where
  "countContextSwitches as = length (filter (\<lambda>action. a_type action = CONTEXT_SWITCH) as)"

definition calculateFatigueLevel :: "KeystrokeMetrics \<Rightarrow> BehavioralMetricsEngine \<Rightarrow> number" where
  "calculateFatigueLevel keystrokeMetrics e =
     (let fatigueIndicators = detectFatigue e in overallFatigueScore fatigueIndicators)"

text \<open>
  The \<open>forEach\<close> of \<open>calculateMetrics\<close>: a keystroke action with a truthy (present and
  non-empty) \<open>hashedKey\<close> is handed to the analyzer, with defaults for what is missing.
\<close>

definition feedKeystroke :: "KeystrokeTimingAnalyzer \<Rightarrow> BehavioralAction \<Rightarrow> KeystrokeTimingAnalyzer" where
  "feedKeystroke an action =
     (case md_hashedKey (a_metadata action) of
        None \<Rightarrow> an
      | Some h \<Rightarrow>
          if h = [] then an
          else processKeystroke
                 \<lparr>key = h,
                  timestamp = a_timestamp action,
                  etype = (case md_eventType (a_metadata action) of None \<Rightarrow> keydown | Some t \<Rightarrow> t),
                  ctrlKey = (case md_modifiers (a_metadata action) of None \<Rightarrow> False | Some m \<Rightarrow> ctrl m),
                  shiftKey = (case md_modifiers (a_metadata action) of None \<Rightarrow> False | Some m \<Rightarrow> shift_mod m),
                  altKey = (case md_modifiers (a_metadata action) of None \<Rightarrow> False | Some m \<Rightarrow> alt m)\<rparr>
                 an)"

definition calculateMetrics ::
  "nat \<Rightarrow> string \<Rightarrow> BehavioralAction list \<Rightarrow> BehavioralMetricsEngine
     \<Rightarrow> BehavioralMetrics \<times> BehavioralMetricsEngine" where
  "calculateMetrics now rnd as e =
     (let keystrokeActions = filter (\<lambda>action. a_type action = KEYSTROKE) as;
          contextSwitches = countContextSwitches as;
          e1 = e\<lparr>keystrokeAnalyzer := foldl feedKeystroke (keystrokeAnalyzer e) keystrokeActions\<rparr>;
          keystrokeMetrics = analyzeStatistics (keystrokeAnalyzer e1);
          fatigueLevel = calculateFatigueLevel keystrokeMetrics e1;
          m = \<lparr>typingSpeed = km_typingSpeed keystrokeMetrics,
               pausePatterns = map real (km_pausePatterns keystrokeMetrics),
               decisionTime = km_decisionTime keystrokeMetrics,
               contextSwitchCount = contextSwitches,
               fatigueLevel = fatigueLevel\<rparr>
      in (m, storeMetrics now rnd m e1))"

definition storePattern ::
  "nat \<Rightarrow> string \<Rightarrow> BehavioralMetrics \<Rightarrow> BehavioralMetricsEngine \<Rightarrow> BehavioralMetricsEngine" where
  "storePattern now pattern m e =
     (let temporalMetrics =
            \<lparr>tm_timestamp = real now,
             metrics = m,
             sessionId = currentSession (patternStorage e),
             tm_duration = getSessionDuration now e\<rparr>;
          old = (case patterns (patternStorage e) pattern of None \<Rightarrow> [] | Some h \<Rightarrow> h);
          h1 = push old temporalMetrics;
          h2 = (if length h1 > maxHistorySize then shift h1 else h1)
      in e\<lparr>patternStorage :=
             (patternStorage e)\<lparr>patterns := (patterns (patternStorage e))(pattern \<mapsto> h2)\<rparr>\<rparr>)"

definition getPatternsByTimeRange ::
  "string \<Rightarrow> number \<Rightarrow> number \<Rightarrow> BehavioralMetricsEngine \<Rightarrow> TemporalMetrics list" where
  "getPatternsByTimeRange pattern startT endT e =
     (let patternHistory = (case patterns (patternStorage e) pattern of None \<Rightarrow> [] | Some h \<Rightarrow> h)
      in filter (\<lambda>m. tm_timestamp m \<ge> startT \<and> tm_timestamp m \<le> endT) patternHistory)"

definition clearAllData :: "nat \<Rightarrow> string \<Rightarrow> BehavioralMetricsEngine \<Rightarrow> BehavioralMetricsEngine" where
  "clearAllData now rnd e =
     startNewSession now rnd
       (e\<lparr>metricsHistory := [],
          patternStorage := (patternStorage e)\<lparr>patterns := Map.empty\<rparr>,
          keystrokeAnalyzer := analyzer_clearData (keystrokeAnalyzer e)\<rparr>)"

definition calculateFatigueProgression :: "TemporalMetrics list \<Rightarrow> number" where
  "calculateFatigueProgression sessionMetrics =
     (if length sessionMetrics < 2 then 0
      else (let firstHalf = slice sessionMetrics 0 (int (length sessionMetrics div 2));
                secondHalf = slice_from sessionMetrics (int (length sessionMetrics div 2));
                firstHalfAvgSpeed = calculateAverageTypingSpeed firstHalf;
                secondHalfAvgSpeed = calculateAverageTypingSpeed secondHalf
            in if firstHalfAvgSpeed > 0
               then max 0 ((firstHalfAvgSpeed - secondHalfAvgSpeed) / firstHalfAvgSpeed) else 0))"

record SessionStatistics =
  ss_sessionId :: string
  ss_duration :: number
  metricsCount :: nat
  averageTypingSpeed :: number
  totalContextSwitches :: nat
  fatigueProgression :: number

definition getSessionStatistics :: "nat \<Rightarrow> BehavioralMetricsEngine \<Rightarrow> SessionStatistics" where
  "getSessionStatistics now e =
     (let sessionMetrics =
            filter (\<lambda>m. sessionId m = currentSession (patternStorage e)) (metricsHistory e);
          averageTypingSpeed =
            (if length sessionMetrics > 0
             then foldl (\<lambda>sum m. sum + typingSpeed (metrics m)) 0 sessionMetrics
                    / real (length sessionMetrics)
             else 0);
          totalContextSwitches =
            foldl (\<lambda>sum m. sum + contextSwitchCount (metrics m)) 0 sessionMetrics;
          fatigueProgression = calculateFatigueProgression sessionMetrics
      in \<lparr>ss_sessionId = currentSession (patternStorage e),
          ss_duration = getSessionDuration now e,
          metricsCount = length sessionMetrics,
          averageTypingSpeed = averageTypingSpeed,
          totalContextSwitches = totalContextSwitches,
          fatigueProgression = fatigueProgression\<rparr>)"

section \<open>Sequence tracker\<close>

record SequenceConfig =
  bufferSize :: number
  contextSwitchThreshold :: number
  focusLossThreshold :: number
  patternChangeThreshold :: number

text \<open>\<open>Partial<SequenceConfig>\<close>: every field may be absent.\<close>

record PartialSequenceConfig =
  p_bufferSize :: "number option"
  p_contextSwitchThreshold :: "number option"
  p_focusLossThreshold :: "number option"
  p_patternChangeThreshold :: "number option"

record ContextSnapshot =
  fileType :: string
  projectContext :: string
  timeOfDay :: nat
  sessionDuration :: number

record ActionSequence =
  seq_id :: string
  actions :: "BehavioralAction list"
  startTime :: number
  endTime :: number
  seq_context :: ContextSnapshot
  seq_patterns :: "string list"

record ContextSwitch =
  cs_timestamp :: number
  fromContext :: string
  toContext :: string
  cs_duration :: number
  reason :: string

record FocusSegment =
  fs_startTime :: number
  fs_endTime :: number
  fs_duration :: number
  fs_context :: string
  activityLevel :: number

datatype ChangeType = gradual | sudden | cyclical

record PatternChangeEvent =
  pce_timestamp :: number
  previousPattern :: string
  newPattern :: string
  confidence :: number
  changeType :: ChangeType
  statisticalSignificance :: number

record BehavioralSequenceTracker =
  config :: SequenceConfig
  actionBuffer :: "BehavioralAction list"
  sequences :: "ActionSequence list"
  contextSwitches :: "ContextSwitch list"
  currentContext :: string
  lastActivityTime :: number
  focusSegments :: "FocusSegment list"
  currentFocusSegment :: "FocusSegment option"
  patternHistory :: "string \<rightharpoonup> number list"
  sequenceIdCounter :: nat

definition maxSequences :: nat where
  "maxSequences = 100"

definition maxContextSwitches :: nat where
  "maxContextSwitches = 500"

text \<open>\<open>v || d\<close> on an optional number: an absent field and \<open>0\<close> are falsy.\<close>

definition or_number :: "number option \<Rightarrow> number \<Rightarrow> number" where
  "or_number v d = (case v of None \<Rightarrow> d | Some x \<Rightarrow> if x = 0 then d else x)"

text \<open>The constructor; \<open>now\<close> is the clock reading of \<open>new Date()\<close>.\<close>

definition newBehavioralSequenceTracker :: "nat \<Rightarrow> PartialSequenceConfig \<Rightarrow> BehavioralSequenceTracker" where
  "newBehavioralSequenceTracker now cfg =
     \<lparr>config =
        \<lparr>bufferSize = or_number (p_bufferSize cfg) 50,
         contextSwitchThreshold = or_number (p_contextSwitchThreshold cfg) 2000,
         focusLossThreshold = or_number (p_focusLossThreshold cfg) 30000,
         patternChangeThreshold = or_number (p_patternChangeThreshold cfg) 0.05\<rparr>,
      actionBuffer = [],
      sequences = [],
      contextSwitches = [],
      currentContext = [],
      lastActivityTime = real now,
      focusSegments = [],
      currentFocusSegment = None,
      patternHistory = Map.empty,
      sequenceIdCounter = 0\<rparr>"

text \<open>
  \<open>{ ...this.config, ...newConfig }\<close>: a field present in \<open>newConfig\<close> replaces the old
  one. A field present with the value \<open>undefined\<close> is outside the model.
\<close>

definition updateConfig :: "PartialSequenceConfig \<Rightarrow> BehavioralSequenceTracker \<Rightarrow> BehavioralSequenceTracker" where
  "updateConfig newConfig t =
     t\<lparr>config :=
         \<lparr>bufferSize = (case p_bufferSize newConfig of None \<Rightarrow> bufferSize (config t) | Some v \<Rightarrow> v),
          contextSwitchThreshold =
            (case p_contextSwitchThreshold newConfig of
               None \<Rightarrow> contextSwitchThreshold (config t) | Some v \<Rightarrow> v),
          focusLossThreshold =
            (case p_focusLossThreshold newConfig of
               None \<Rightarrow> focusLossThreshold (config t) | Some v \<Rightarrow> v),
          patternChangeThreshold =
            (case p_patternChangeThreshold newConfig of
               None \<Rightarrow> patternChangeThreshold (config t) | Some v \<Rightarrow> v)\<rparr>\<rparr>"


definition getCurrentBuffer :: "BehavioralSequenceTracker \<Rightarrow> BehavioralAction list" where
  "getCurrentBuffer t = actionBuffer t"

definition determineContextSwitchReason :: "BehavioralAction \<Rightarrow> BehavioralSequenceTracker \<Rightarrow> string" where
  "determineContextSwitchReason action t =
     (case a_type action of
        FILE_SWITCH \<Rightarrow> ''file_switch''
      | CONTEXT_SWITCH \<Rightarrow> or_default (md_reason (a_metadata action)) ''manual''
      | _ \<Rightarrow>
          (let timeSinceLastActivity = a_timestamp action - lastActivityTime t
           in if timeSinceLastActivity > focusLossThreshold (config t)
              then ''focus_loss'' else ''manual''))"

definition startNewFocusSegment :: "number \<Rightarrow> string \<Rightarrow> BehavioralSequenceTracker \<Rightarrow> BehavioralSequenceTracker" where
  "startNewFocusSegment ts ctx t =
     t\<lparr>currentFocusSegment :=
         Some \<lparr>fs_startTime = newDate ts,
               fs_endTime = newDate ts,
               fs_duration = 0,
               fs_context = ctx,
               activityLevel = 0\<rparr>\<rparr>"

definition endCurrentFocusSegment :: "number \<Rightarrow> BehavioralSequenceTracker \<Rightarrow> BehavioralSequenceTracker" where
  "endCurrentFocusSegment ts t =
     (case currentFocusSegment t of
        None \<Rightarrow> t
      | Some seg \<Rightarrow>
          t\<lparr>focusSegments :=
              push (focusSegments t) (seg\<lparr>fs_endTime := newDate ts, fs_duration := ts - fs_startTime seg\<rparr>),
            currentFocusSegment := None\<rparr>)"

text \<open>
  The \<open>switch\<close> at the head of \<open>detectContextSwitch\<close>: the candidate context of an
  action, \<open>None\<close> where the source returns at once (keystrokes and code edits).
\<close>

definition newContextOf :: "BehavioralAction \<Rightarrow> string option" where
  "newContextOf action =
     (case a_type action of
        FILE_SWITCH \<Rightarrow> Some (or_default (md_fileName (a_metadata action)) ''unknown_file'')
      | CONTEXT_SWITCH \<Rightarrow> Some (or_default (md_to (a_metadata action)) ''unknown_context'')
      | KEYSTROKE \<Rightarrow> None
      | CODE_EDIT \<Rightarrow> None
      | _ \<Rightarrow> Some (or_default (md_context (a_metadata action)) ''default_context''))"

definition detectContextSwitch :: "BehavioralAction \<Rightarrow> BehavioralSequenceTracker \<Rightarrow> BehavioralSequenceTracker" where
  "detectContextSwitch action t =
     (case newContextOf action of
        None \<Rightarrow> t
      | Some newContext \<Rightarrow>
          if currentContext t = [] then
            startNewFocusSegment (a_timestamp action) newContext (t\<lparr>currentContext := newContext\<rparr>)
          else if newContext \<noteq> currentContext t then
            (let contextSwitch =
                   \<lparr>cs_timestamp = newDate (a_timestamp action),
                    fromContext = currentContext t,
                    toContext = newContext,
                    cs_duration = a_duration action,
                    reason = determineContextSwitchReason action t\<rparr>;
                 sw1 = push (contextSwitches t) contextSwitch;
                 sw2 = (if length sw1 > maxContextSwitches then shift sw1 else sw1);
                 t1 = endCurrentFocusSegment (a_timestamp action) (t\<lparr>contextSwitches := sw2\<rparr>);
                 t2 = t1\<lparr>currentContext := newContext\<rparr>
             in startNewFocusSegment (a_timestamp action) newContext t2)
          else t)"

definition calculateActivityLevel :: "BehavioralSequenceTracker \<Rightarrow> number" where
  "calculateActivityLevel t =
     (let recentActions = slice_from (actionBuffer t) (- 10);
          timeSpan = (if length recentActions > 1
                      then a_timestamp (last recentActions) - a_timestamp (hd recentActions)
                      else 1)
      in if timeSpan > 0 then real (length recentActions) / (timeSpan / 1000) else 0)"

definition updateFocusTracking :: "BehavioralAction \<Rightarrow> BehavioralSequenceTracker \<Rightarrow> BehavioralSequenceTracker" where
  "updateFocusTracking action t =
     (let now = newDate (a_timestamp action)
      in case currentFocusSegment t of
           None \<Rightarrow> t
         | Some seg \<Rightarrow>
             (let seg1 = seg\<lparr>fs_endTime := now,
                            fs_duration := now - fs_startTime seg,
                            activityLevel := calculateActivityLevel t\<rparr>;
                  t1 = t\<lparr>currentFocusSegment := Some seg1\<rparr>;
                  timeSinceLastActivity = now - lastActivityTime t
              in if timeSinceLastActivity > focusLossThreshold (config t)
                 then endCurrentFocusSegment (a_timestamp action) t1 else t1))"

text \<open>
  \<open>createContextSnapshot\<close>: \<open>split('.').pop()\<close> is the part after the last dot (the
  whole label when it has none). \<open>hours\<close> is the reading of \<open>new Date().getHours()\<close>.
  In \<open>focusSegments[0]?.startTime.getTime() || Date.now()\<close> a start time \<open>0\<close> is falsy.
\<close>

definition lastSegment :: "string \<Rightarrow> string" where
  "lastSegment s = rev (takeWhile (\<lambda>c. c \<noteq> CHR ''.'') (rev s))"

definition createContextSnapshot :: "nat \<Rightarrow> nat \<Rightarrow> BehavioralSequenceTracker \<Rightarrow> ContextSnapshot" where
  "createContextSnapshot now hours t =
     \<lparr>fileType = or_default (Some (lastSegment (currentContext t))) ''unknown'',
      projectContext = currentContext t,
      timeOfDay = hours,
      sessionDuration =
        real now -
          (case focusSegments t of
             [] \<Rightarrow> real now
           | seg # _ \<Rightarrow> if fs_startTime seg = 0 then real now else fs_startTime seg)\<rparr>"

fun actionTypeName :: "ActionType \<Rightarrow> string" where
  "actionTypeName KEYSTROKE = ''keystroke''"
| "actionTypeName MOUSE_CLICK = ''mouse_click''"
| "actionTypeName MOUSE_MOVE = ''mouse_move''"
| "actionTypeName CODE_EDIT = ''code_edit''"
| "actionTypeName FILE_SWITCH = ''file_switch''"
| "actionTypeName CONTEXT_SWITCH = ''context_switch''"

text \<open>\<open>xs.join(',')\<close> and \<open>s.includes(sub)\<close>.\<close>

fun join_comma :: "string list \<Rightarrow> string" where
  "join_comma [] = []"
| "join_comma [x] = x"
| "join_comma (x # y # rest) = x @ '','' @ join_comma (y # rest)"

definition str_includes :: "string \<Rightarrow> string \<Rightarrow> bool" where
  "str_includes s sub = sublist sub s"

definition findActionTypePattern :: "ActionType list \<Rightarrow> string option" where
  "findActionTypePattern actionTypes =
     (let typeSequence = join_comma (map actionTypeName actionTypes)
      in if str_includes typeSequence ''keystroke,keystroke,keystroke'' then Some ''continuous_typing''
         else if str_includes typeSequence ''context_switch,keystroke'' then Some ''switch_and_type''
         else if str_includes typeSequence ''file_switch,code_edit'' then Some ''file_navigation''
         else None)"

text \<open>
  The loop \<open>for (let i = 1; i < actions.length; i++)\<close> that collects the differences of
  consecutive timestamps, in \<open>findTimingPattern\<close> and in \<open>calculateTypingRhythm\<close>.
\<close>

fun timestampIntervals :: "BehavioralAction list \<Rightarrow> number list" where
  "timestampIntervals (a # b # rest) = (a_timestamp b - a_timestamp a) # timestampIntervals (b # rest)"
| "timestampIntervals _ = []"

definition findTimingPattern :: "BehavioralAction list \<Rightarrow> string option" where
  "findTimingPattern as =
     (if length as < 3 then None
      else (let intervals = timestampIntervals as;
                avgInterval = reduce_sum intervals / real (length intervals)
            in if avgInterval < 200 then Some ''rapid_sequence''
               else if avgInterval > 2000 then Some ''deliberate_sequence''
               else Some ''normal_sequence''))"

definition findContextPattern :: "BehavioralAction list \<Rightarrow> string option" where
  "findContextPattern as =
     (let contexts =
            map (\<lambda>a. or_default (md_context (a_metadata a)) [])
              (filter (\<lambda>a. case md_context (a_metadata a) of None \<Rightarrow> False | Some c \<Rightarrow> c \<noteq> []) as);
          uniqueContexts = remdups contexts
      in if length uniqueContexts = 1 then Some ''single_context''
         else if real (length uniqueContexts) > real (length as) / 2 then Some ''context_heavy''
         else Some ''mixed_context'')"

definition extractSequencePatterns :: "BehavioralAction list \<Rightarrow> string list" where
  "extractSequencePatterns as =
     (let actionTypes = map a_type as;
          p1 = (case findActionTypePattern actionTypes of None \<Rightarrow> [] | Some p \<Rightarrow> push [] p);
          p2 = (case findTimingPattern as of None \<Rightarrow> p1 | Some p \<Rightarrow> push p1 p);
          p3 = (case findContextPattern as of None \<Rightarrow> p2 | Some p \<Rightarrow> push p2 p)
      in p3)"

definition completeCurrentSequence :: "nat \<Rightarrow> nat \<Rightarrow> BehavioralSequenceTracker \<Rightarrow> BehavioralSequenceTracker" where
  "completeCurrentSequence now hours t =
     (if length (actionBuffer t) = 0 then t
      else (let counter = sequenceIdCounter t + 1;
                sequence =
                  \<lparr>seq_id = ''seq_'' @ decimal counter,
                   actions = actionBuffer t,
                   startTime = newDate (a_timestamp (hd (actionBuffer t))),
                   endTime = newDate (a_timestamp (last (actionBuffer t))),
                   seq_context = createContextSnapshot now hours t,
                   seq_patterns = extractSequencePatterns (actionBuffer t)\<rparr>;
                s1 = push (sequences t) sequence;
                s2 = (if length s1 > maxSequences then shift s1 else s1)
            in t\<lparr>sequenceIdCounter := counter, sequences := s2, actionBuffer := []\<rparr>))"

definition checkSequenceCompletion :: "nat \<Rightarrow> nat \<Rightarrow> BehavioralSequenceTracker \<Rightarrow> BehavioralSequenceTracker" where
  "checkSequenceCompletion now hours t =
     (if real (length (actionBuffer t)) \<ge> bufferSize (config t)
      then completeCurrentSequence now hours t else t)"

definition recordAction ::
  "nat \<Rightarrow> nat \<Rightarrow> BehavioralAction \<Rightarrow> BehavioralSequenceTracker \<Rightarrow> BehavioralSequenceTracker" where
  "recordAction now hours action t =
     (let t1 = t\<lparr>actionBuffer := push (actionBuffer t) action,
                lastActivityTime := newDate (a_timestamp action)\<rparr>;
          t2 = (if real (length (actionBuffer t1)) > bufferSize (config t1)
                then t1\<lparr>actionBuffer := shift (actionBuffer t1)\<rparr> else t1);
          t3 = detectContextSwitch action t2;
          t4 = updateFocusTracking action t3
      in checkSequenceCompletion now hours t4)"

subsection \<open>Pattern change detection\<close>

definition calculateTypingRhythm :: "ActionSequence \<Rightarrow> number" where
  "calculateTypingRhythm sq =
     (let keystrokeActions = filter (\<lambda>a. a_type a = KEYSTROKE) (actions sq)
      in if length keystrokeActions < 2 then 0
         else (let intervals = timestampIntervals keystrokeActions
               in reduce_sum intervals / real (length intervals)))"

definition calculateContextSwitchingRate :: "ActionSequence \<Rightarrow> number" where
  "calculateContextSwitchingRate sq =
     (let switches = filter (\<lambda>a. a_type a = CONTEXT_SWITCH) (actions sq);
          duration = endTime sq - startTime sq
      in if duration > 0 then (real (length switches) / duration) * 60000 else 0)"

definition extractPatternMetric :: "ActionSequence \<Rightarrow> string \<Rightarrow> number" where
  "extractPatternMetric sq patternType =
     (if patternType = ''typing_rhythm'' then calculateTypingRhythm sq
      else if patternType = ''context_switching'' then calculateContextSwitchingRate sq
      else if patternType = ''focus_duration'' then endTime sq - startTime sq
      else 0)"

text \<open>
  \<open>performTTest\<close> is only called with groups of at least two values, so
  \<open>group.length - 1\<close> is never zero there.
\<close>

definition performTTest :: "number list \<Rightarrow> number list \<Rightarrow> number" where
  "performTTest group1 group2 =
     (let mean1 = reduce_sum group1 / real (length group1);
          mean2 = reduce_sum group2 / real (length group2);
          var1 = foldl (\<lambda>sum val. sum + (val - mean1) ^ 2) 0 group1 / (real (length group1) - 1);
          var2 = foldl (\<lambda>sum val. sum + (val - mean2) ^ 2) 0 group2 / (real (length group2) - 1);
          pooledVar = ((real (length group1) - 1) * var1 + (real (length group2) - 1) * var2)
                        / (real (length group1) + real (length group2) - 2);
          standardError = sqrt (pooledVar * (1 / real (length group1) + 1 / real (length group2)))
      in if standardError > 0 then (mean1 - mean2) / standardError else 0)"

definition calculatePValue :: "number \<Rightarrow> number \<Rightarrow> number" where
  "calculatePValue tStat degreesOfFreedom =
     (let absTStat = \<bar>tStat\<bar>
      in if absTStat > 2.576 then 0.01
         else if absTStat > 1.96 then 0.05
         else if absTStat > 1.645 then 0.10
         else 0.5)"

text \<open>
  \<open>determineChangeType\<close> divides by the first mean without a guard. With a zero first
  mean JavaScript yields \<open>Infinity\<close> (which exceeds \<open>0.5\<close>) when the means differ, and
  \<open>NaN\<close> (which exceeds nothing) when both are zero.
\<close>

definition determineChangeType :: "number list \<Rightarrow> number list \<Rightarrow> ChangeType" where
  "determineChangeType firstHalf secondHalf =
     (let mean1 = reduce_sum firstHalf / real (length firstHalf);
          mean2 = reduce_sum secondHalf / real (length secondHalf)
      in if mean1 = 0 then (if mean2 - mean1 = 0 then cyclical else sudden)
         else (let percentChange = \<bar>(mean2 - mean1) / mean1\<bar>
               in if percentChange > 0.5 then sudden
                  else if percentChange > 0.2 then gradual
                  else cyclical))"

definition detectPatternChange ::
  "nat \<Rightarrow> string \<Rightarrow> ActionSequence list \<Rightarrow> BehavioralSequenceTracker \<Rightarrow> PatternChangeEvent option" where
  "detectPatternChange now patternType sqs t =
     (let ms = map (\<lambda>sq. extractPatternMetric sq patternType) sqs
      in if length ms < 5 then None
         else (let firstHalf = slice ms 0 (int (length ms div 2));
                   secondHalf = slice_from ms (int (length ms div 2));
                   tStat = performTTest firstHalf secondHalf;
                   pValue = calculatePValue tStat (real (length ms) - 2)
               in if pValue < patternChangeThreshold (config t)
                  then Some \<lparr>pce_timestamp = real now,
                             previousPattern = patternType @ ''_old'',
                             newPattern = patternType @ ''_new'',
                             confidence = 1 - pValue,
                             changeType = determineChangeType firstHalf secondHalf,
                             statisticalSignificance = pValue\<rparr>
                  else None))"

definition detectPatternChanges :: "nat \<Rightarrow> BehavioralSequenceTracker \<Rightarrow> PatternChangeEvent list" where
  "detectPatternChanges now t =
     (let recentSequences = slice_from (sequences t) (- 10)
      in if length recentSequences < 5 then []
         else (let patternTypes = [''typing_rhythm'', ''context_switching'', ''focus_duration'']
               in foldl (\<lambda>changes patternType.
                           case detectPatternChange now patternType recentSequences t of
                             None \<Rightarrow> changes
                           | Some change \<Rightarrow> push changes change)
                    [] patternTypes))"

subsection \<open>Context switch statistics\<close>

record ContextSwitchStatistics =
  totalSwitches :: nat
  averageSwitchDuration :: number
  mostFrequentReason :: string
  switchesPerHour :: number
  contexts :: "string list"

text \<open>
  A JavaScript \<open>Map\<close> and \<open>Set\<close> keep insertion order: the reason counts are an
  association list and the contexts a duplicate-free list.
\<close>

fun countReason :: "(string \<times> nat) list \<Rightarrow> string \<Rightarrow> (string \<times> nat) list" where
  "countReason [] r = [(r, 1)]"
| "countReason ((k, c) # rest) r = (if k = r then (k, c + 1) # rest else (k, c) # countReason rest r)"

definition set_add :: "string list \<Rightarrow> string \<Rightarrow> string list" where
  "set_add xs x = (if x \<in> set xs then xs else push xs x)"

definition getContextSwitchStatistics :: "BehavioralSequenceTracker \<Rightarrow> ContextSwitchStatistics" where
  "getContextSwitchStatistics t =
     (if length (contextSwitches t) = 0
      then \<lparr>totalSwitches = 0,
            averageSwitchDuration = 0,
            mostFrequentReason = ''none'',
            switchesPerHour = 0,
            contexts = []\<rparr>
      else (let total = length (contextSwitches t);
                averageSwitchDuration =
                  foldl (\<lambda>sum cs. sum + cs_duration cs) 0 (contextSwitches t) / real total;
                reasonCounts = foldl (\<lambda>m cs. countReason m (reason cs)) [] (contextSwitches t);
                ctxs = foldl (\<lambda>c cs. set_add (set_add c (fromContext cs)) (toContext cs)) []
                         (contextSwitches t);
                mostFrequentReason =
                  fst (foldl (\<lambda>mx (r, count). if count > snd mx then (r, count) else mx)
                         (''none'', 0) reasonCounts);
                timeSpan =
                  (if length (contextSwitches t) > 1
                   then cs_timestamp (last (contextSwitches t)) - cs_timestamp (hd (contextSwitches t))
                   else 0);
                hours = timeSpan / (1000 * 60 * 60);
                switchesPerHour = (if hours > 0 then real total / hours else 0)
            in \<lparr>totalSwitches = total,
                averageSwitchDuration = averageSwitchDuration,
                mostFrequentReason = mostFrequentReason,
                switchesPerHour = switchesPerHour,
                contexts = ctxs\<rparr>))"

definition clearData :: "nat \<Rightarrow> BehavioralSequenceTracker \<Rightarrow> BehavioralSequenceTracker" where
  "clearData now t =
     t\<lparr>actionBuffer := [],
       sequences := [],
       contextSwitches := [],
       focusSegments := [],
       currentFocusSegment := None,
       patternHistory := Map.empty,
       currentContext := [],
       lastActivityTime := real now,
       sequenceIdCounter := 0\<rparr>"

subsection \<open>Runs\<close>

text \<open>
  A run of the analyzer is a list of keystroke events processed in order, starting from a
  new analyzer. A run of the tracker is a list of recorded actions, each with the clock
  readings of its call, starting from a given tracker. A run of the engine is a list of
  \<open>calculateMetrics\<close> calls, all made at one clock reading.
\<close>

definition analyzerRun :: "KeystrokeEvent list \<Rightarrow> KeystrokeTimingAnalyzer" where
  "analyzerRun events = foldl (\<lambda>a event. processKeystroke event a) newKeystrokeTimingAnalyzer events"

definition trackerRun ::
  "BehavioralSequenceTracker \<Rightarrow> (nat \<times> nat \<times> BehavioralAction) list \<Rightarrow> BehavioralSequenceTracker" where
  "trackerRun t calls = foldl (\<lambda>t (now, hours, action). recordAction now hours action t) t calls"

definition engineRun ::
  "nat \<Rightarrow> string \<Rightarrow> BehavioralMetricsEngine \<Rightarrow> BehavioralAction list list \<Rightarrow> BehavioralMetricsEngine" where
  "engineRun now rnd e calls = foldl (\<lambda>e as. snd (calculateMetrics now rnd as e)) e calls"


section \<open>Notions used to state the properties\<close>

subsection \<open>Timing statistics as the specification words them\<close>

text \<open>
  The specification describes the timing pattern by the mean, the population variance,
  the 5-wide moving averages and two counts. These definitions follow its words; the
  functions above follow the source.
\<close>

definition spec_mean :: "number list \<Rightarrow> number" where
  "spec_mean xs = sum_list xs / real (length xs)"

definition spec_populationVariance :: "number list \<Rightarrow> number" where
  "spec_populationVariance xs = (\<Sum>x\<leftarrow>xs. (x - spec_mean xs) ^ 2) / real (length xs)"

definition spec_movingAverages :: "number list \<Rightarrow> number list" where
  "spec_movingAverages xs = map (\<lambda>i. spec_mean (take 5 (drop i xs))) [0..<length xs - 4]"

subsection \<open>Buffers\<close>

text \<open>
  The record that \<open>processKeystroke\<close> stores for an event, and the differences of
  consecutive timestamps of a stream of events.
\<close>

definition hashedEvent :: "KeystrokeEvent \<Rightarrow> KeystrokeEvent" where
  "hashedEvent event = event\<lparr>key := hashKey (key event)\<rparr>"

fun eventIntervals :: "KeystrokeEvent list \<Rightarrow> number list" where
  "eventIntervals (a # b # rest) = (timestamp b - timestamp a) # eventIntervals (b # rest)"
| "eventIntervals _ = []"

text \<open>
  The action buffer of \<open>recordAction\<close> after its \<open>push\<close> and its \<open>shift\<close>, before the
  completion check.
\<close>

definition bufferAfterPush :: "BehavioralSequenceTracker \<Rightarrow> BehavioralAction \<Rightarrow> BehavioralAction list" where
  "bufferAfterPush t a =
     (if real (length (actionBuffer t @ [a])) > bufferSize (config t)
      then tl (actionBuffer t @ [a]) else actionBuffer t @ [a])"

text \<open>The cap of the context switch history: beyond 500 entries the oldest is dropped.\<close>

definition capSwitches :: "ContextSwitch list \<Rightarrow> ContextSwitch list" where
  "capSwitches sw = (if length sw > 500 then tl sw else sw)"

text \<open>
  The invariant of the tracker under a fixed configuration: the buffer is below its
  capacity and every stored sequence has exactly \<open>bufferSize\<close> actions.
\<close>

definition sequenceInv :: "BehavioralSequenceTracker \<Rightarrow> bool" where
  "sequenceInv t \<longleftrightarrow>
     real (length (actionBuffer t)) < bufferSize (config t) \<and>
     (\<forall>sq \<in> set (sequences t). real (length (actions sq)) = bufferSize (config t))"

subsection \<open>Configurations\<close>




subsection \<open>Decimal digits and engine steps\<close>

definition digitValue :: "char \<Rightarrow> nat" where
  "digitValue c = of_char c - 48"

text \<open>
  The metrics that \<open>calculateMetrics\<close> assembles from an analyzer, a count of context
  switches and a fatigue level.
\<close>

definition statsMetrics :: "KeystrokeTimingAnalyzer \<Rightarrow> nat \<Rightarrow> number \<Rightarrow> BehavioralMetrics" where
  "statsMetrics a n f =
     \<lparr>typingSpeed = calculateTypingSpeed a,
      pausePatterns = map real (analyzePausePatterns a),
      decisionTime = calculateDecisionTime a,
      contextSwitchCount = n,
      fatigueLevel = f\<rparr>"


section \<open>Example inputs\<close>

definition noMetadata :: Metadata where
  "noMetadata =
     \<lparr>md_hashedKey = None, md_eventType = None, md_modifiers = None, md_fileName = None,
      md_to = None, md_context = None, md_reason = None\<rparr>"

definition noOverride :: PartialSequenceConfig where
  "noOverride =
     \<lparr>p_bufferSize = None, p_contextSwitchThreshold = None,
      p_focusLossThreshold = None, p_patternChangeThreshold = None\<rparr>"

definition keystrokeAt :: "number \<Rightarrow> BehavioralAction" where
  "keystrokeAt ts =
     \<lparr>a_type = KEYSTROKE, a_timestamp = ts, a_duration = 0,
      a_metadata = noMetadata\<lparr>md_hashedKey := Some (str ''key_1'')\<rparr>\<rparr>"

definition mouseMove :: "number \<Rightarrow> BehavioralAction" where
  "mouseMove ts = \<lparr>a_type = MOUSE_MOVE, a_timestamp = ts, a_duration = 0, a_metadata = noMetadata\<rparr>"

definition fileSwitchTo :: "string \<Rightarrow> number \<Rightarrow> BehavioralAction" where
  "fileSwitchTo name ts =
     \<lparr>a_type = FILE_SWITCH, a_timestamp = ts, a_duration = 100,
      a_metadata = noMetadata\<lparr>md_fileName := Some name\<rparr>\<rparr>"

definition contextSwitchTo :: "string \<Rightarrow> number \<Rightarrow> BehavioralAction" where
  "contextSwitchTo target ts =
     \<lparr>a_type = CONTEXT_SWITCH, a_timestamp = ts, a_duration = 100,
      a_metadata = noMetadata\<lparr>md_to := Some target\<rparr>\<rparr>"

definition keyEventAt :: "number \<Rightarrow> KeystrokeEvent" where
  "keyEventAt ts =
     \<lparr>key = str ''a'', timestamp = ts, etype = keydown,
      ctrlKey = False, shiftKey = False, altKey = False\<rparr>"

text \<open>A tracker with the default configuration, and one whose buffer holds two actions.\<close>

definition defaultTracker :: BehavioralSequenceTracker where
  "defaultTracker = newBehavioralSequenceTracker 0 noOverride"

definition smallTracker :: BehavioralSequenceTracker where
  "smallTracker = newBehavioralSequenceTracker 0 (noOverride\<lparr>p_bufferSize := Some 2\<rparr>)"

text \<open>
  Six sequences of two mouse moves each. The spans of the first three are 9, 9 and 12
  milliseconds, those of the last three are 0.
\<close>

definition exampleSequence :: "nat \<Rightarrow> number \<Rightarrow> number \<Rightarrow> ActionSequence" where
  "exampleSequence n s e =
     \<lparr>seq_id = ''seq_'' @ decimal n,
      actions = [mouseMove s, mouseMove e],
      startTime = s,
      endTime = e,
      seq_context = \<lparr>fileType = ''default_context'', projectContext = ''default_context'',
                     timeOfDay = 0, sessionDuration = 0\<rparr>,
      seq_patterns = [''mixed_context'']\<rparr>"

definition shiftedSequences :: "ActionSequence list" where
  "shiftedSequences =
     [exampleSequence 1 0 9, exampleSequence 2 100 109, exampleSequence 3 200 212,
      exampleSequence 4 300 300, exampleSequence 5 400 400, exampleSequence 6 500 500]"

definition shiftedTracker :: BehavioralSequenceTracker where
  "shiftedTracker =
     smallTracker\<lparr>sequences := shiftedSequences,
                  currentContext := ''default_context'',
                  sequenceIdCounter := 6\<rparr>"

definition shiftEvent :: PatternChangeEvent where
  "shiftEvent =
     \<lparr>pce_timestamp = 0,
      previousPattern = ''focus_duration_old'',
      newPattern = ''focus_duration_new'',
      confidence = 0.99,
      changeType = sudden,
      statisticalSignificance = 0.01\<rparr>"

text \<open>
  A session of eleven calls of \<open>calculateMetrics\<close> at clock reading 0: two keystrokes
  1500 ms apart, then three more keystrokes 1500 ms apart, then nine calls without
  actions.
\<close>

definition sid0 :: string where
  "sid0 = generateSessionId 0 ''4fzyo82mv''"

definition entry :: "string \<Rightarrow> BehavioralMetrics \<Rightarrow> TemporalMetrics" where
  "entry sid m = \<lparr>tm_timestamp = 0, metrics = m, sessionId = sid, tm_duration = 0\<rparr>"

definition analyzerAfter :: "number list \<Rightarrow> KeystrokeTimingAnalyzer" where
  "analyzerAfter ts = foldl feedKeystroke newKeystrokeTimingAnalyzer (map keystrokeAt ts)"

definition fatigueCalls :: "BehavioralAction list list" where
  "fatigueCalls =
     [[keystrokeAt 0, keystrokeAt 1500], [keystrokeAt 3000, keystrokeAt 4500, keystrokeAt 6000]]
     @ replicate 9 []"

definition fatiguedEngine :: BehavioralMetricsEngine where
  "fatiguedEngine =
     engineRun 0 ''4fzyo82mv'' (newBehavioralMetricsEngine 0 ''4fzyo82mv'' ''user'') fatigueCalls"

text \<open>An engine whose history holds ten entries, and one after a single call.\<close>

definition tenEntryEngine :: BehavioralMetricsEngine where
  "tenEntryEngine =
     (newBehavioralMetricsEngine 0 ''4fzyo82mv'' ''user'')
       \<lparr>metricsHistory :=
          replicate 10
            (entry sid0 \<lparr>typingSpeed = 10, pausePatterns = [4, 0, 0], decisionTime = 1500,
                         contextSwitchCount = 0, fatigueLevel = 0\<rparr>)\<rparr>"

definition oneCallEngine :: BehavioralMetricsEngine where
  "oneCallEngine =
     snd (calculateMetrics 0 ''4fzyo82mv'' [] (newBehavioralMetricsEngine 0 ''4fzyo82mv'' ''user''))"

text \<open>
  Four keystrokes whose gaps are 50, 50 and 1500 ms, and 101 keystrokes 100 ms apart.
\<close>

definition pauseBurstEvents :: "KeystrokeEvent list" where
  "pauseBurstEvents = map keyEventAt [0, 50, 100, 1600]"






text \<open>The tracker after a first action that is a keystroke.\<close>

definition typedTracker :: BehavioralSequenceTracker where
  "typedTracker = recordAction 0 0 (keystrokeAt 0) defaultTracker"


definition threeSwitches :: "(nat \<times> nat \<times> BehavioralAction) list" where
  "threeSwitches =
     [(0, 0, contextSwitchTo ''file2.ts'' 0),
      (0, 0, contextSwitchTo ''terminal'' 1000),
      (0, 0, contextSwitchTo ''file1.ts'' 2000)]"

definition typeThenSwitch :: "(nat \<times> nat \<times> BehavioralAction) list" where
  "typeThenSwitch =
     [(0, 0, keystrokeAt 0),
      (0, 0, fileSwitchTo ''a.ts'' 1000),
      (0, 0, fileSwitchTo ''b.ts'' 2000)]"

text \<open>
  A tracker with the default buffer size 50 that has recorded three mouse moves and is
  then reconfigured to the buffer size 2.
\<close>

definition smallerOverride :: PartialSequenceConfig where
  "smallerOverride = noOverride\<lparr>p_bufferSize := Some 2\<rparr>"

definition reconfiguredTracker :: BehavioralSequenceTracker where
  "reconfiguredTracker =
     updateConfig smallerOverride
       (trackerRun defaultTracker [(0, 0, mouseMove 0), (0, 0, mouseMove 10), (0, 0, mouseMove 20)])"

section \<open>Array and arithmetic lemmas\<close>

lemma foldl_add_sum_list: "foldl (\<lambda>sum v. sum + v) a xs = a + sum_list (xs :: real list)"
  by (induction xs arbitrary: a) simp_all

lemma reduce_sum_sum_list: "reduce_sum xs = sum_list xs"
  by (simp add: reduce_sum_def foldl_add_sum_list)

lemma in_set_tl: "x \<in> set (tl xs) \<Longrightarrow> x \<in> set xs"
  by (cases xs) auto

lemma last_tl_snoc: "last (tl (xs @ [x])) = x" if "99 < length xs"
  using that by (cases xs) auto

lemma slice_window: "slice xs (int i) (int i + 5) = take 5 (drop i xs)" if "i + 5 \<le> length xs"
proof -
  have "nat (int i + 5) = i + 5" by simp
  then show ?thesis using that by (simp add: slice_def slice_index_def Let_def min_def del: of_nat_add)
qed


section \<open>Timing patterns\<close>

lemma calculateMean_spec: "calculateMean xs = spec_mean xs"
  by (simp add: calculateMean_def spec_mean_def reduce_sum_sum_list)

lemma calculateVariance_spec: "calculateVariance xs (spec_mean xs) = spec_populationVariance xs"
  by (simp add: calculateVariance_def calculateMean_spec spec_mean_def spec_populationVariance_def Let_def)

lemma calculateRhythm_loop_spec:
  "calculateRhythm_loop xs i out = out @ map (\<lambda>j. spec_mean (take 5 (drop j xs))) [i..<length xs - 4]"
proof (induction xs i out rule: calculateRhythm_loop.induct)
  case (1 intervals i out)
  show ?case
  proof (cases "int i \<le> int (length intervals) - 5")
    case True
    then have le: "i + 5 \<le> length intervals" by simp
    then have lt: "i < length intervals - 4" by simp
    have "calculateRhythm_loop intervals i out =
          calculateRhythm_loop intervals (i + 1) (push out (calculateMean (slice intervals (int i) (int i + 5))))"
      using True by (subst calculateRhythm_loop.simps) simp
    also have "\<dots> = push out (calculateMean (slice intervals (int i) (int i + 5))) @
          map (\<lambda>j. spec_mean (take 5 (drop j intervals))) [i + 1..<length intervals - 4]"
      using "1.IH"[OF True] .
    also have "\<dots> = out @ map (\<lambda>j. spec_mean (take 5 (drop j intervals))) [i..<length intervals - 4]"
      using lt by (simp add: push_def slice_window[OF le] calculateMean_spec upt_conv_Cons)
    finally show ?thesis .
  next
    case False
    then have "[i..<length intervals - 4] = []" by simp
    with False show ?thesis by (subst calculateRhythm_loop.simps) simp
  qed
qed

lemma calculateRhythm_spec: "calculateRhythm xs = spec_movingAverages xs"
  by (simp add: calculateRhythm_def calculateRhythm_loop_spec spec_movingAverages_def)


section \<open>The keystroke buffers along a run\<close>

lemma analyzerRun_snoc: "analyzerRun (evs @ [e]) = processKeystroke e (analyzerRun evs)"
  by (simp add: analyzerRun_def)

lemma keyEvents_step:
  "keyEvents (processKeystroke e a) =
     (if length (keyEvents a) < 100 then keyEvents a @ [hashedEvent e]
      else tl (keyEvents a @ [hashedEvent e]))"
  by (simp add: processKeystroke_def Let_def push_def shift_def analyzerBufferSize_def hashedEvent_def)

lemma keyEvents_run: "keyEvents (analyzerRun evs) = map hashedEvent (drop (length evs - 100) evs)"
proof (induction evs rule: rev_induct)
  case Nil
  then show ?case by (simp add: analyzerRun_def newKeystrokeTimingAnalyzer_def)
next
  case (snoc e evs)
  show ?case
  proof (cases "length evs < 100")
    case True
    then show ?thesis using snoc by (simp add: analyzerRun_snoc keyEvents_step)
  next
    case False
    then have "drop (length evs - 100) evs \<noteq> []" by simp
    then have "tl (map hashedEvent (drop (length evs - 100) evs) @ [hashedEvent e])
        = map hashedEvent (drop (Suc (length evs - 100)) evs) @ [hashedEvent e]"
      by (simp add: map_tl [symmetric] tl_drop drop_Suc del: map_tl)
    moreover have "Suc (length evs) - 100 = Suc (length evs - 100)" using False by simp
    ultimately show ?thesis using False snoc by (simp add: analyzerRun_snoc keyEvents_step)
  qed
qed

lemma eventIntervals_snoc:
  "eventIntervals (evs @ [e]) =
     (if evs = [] then [] else eventIntervals evs @ [timestamp e - timestamp (last evs)])"
  by (induction evs rule: eventIntervals.induct) auto

lemma timestamp_hashedEvent: "timestamp (hashedEvent e) = timestamp e"
  by (simp add: hashedEvent_def)

lemma timingBuffer_step:
  "timingBuffer (processKeystroke e a) =
     (let evs2 = keyEvents (processKeystroke e a)
      in if length evs2 > 1
         then (let tb1 = timingBuffer a @ [timestamp e - timestamp (evs2 ! (length evs2 - 2))]
               in if length tb1 > 100 then tl tb1 else tb1)
         else timingBuffer a)"
  by (simp add: processKeystroke_def Let_def push_def shift_def analyzerBufferSize_def)

lemma previous_event:
  assumes "evs \<noteq> []"
  shows "timestamp (keyEvents (analyzerRun (evs @ [e])) ! (length (keyEvents (analyzerRun (evs @ [e]))) - 2))
           = timestamp (last evs)"
proof -
  let ?k = "length (evs @ [e]) - 100"
  let ?d = "drop ?k (evs @ [e])"
  have ge2: "2 \<le> length ?d" using assms by (cases evs) auto
  have idx: "?k + (length ?d - 2) = length evs - 1" using assms ge2 by (cases evs) auto
  have ke: "keyEvents (analyzerRun (evs @ [e])) = map hashedEvent ?d" by (rule keyEvents_run)
  have lt: "length ?d - 2 < length ?d" using ge2 by arith
  have "keyEvents (analyzerRun (evs @ [e])) ! (length ?d - 2) = hashedEvent (?d ! (length ?d - 2))"
    unfolding ke using lt by (rule nth_map)
  also have "?d ! (length ?d - 2) = (evs @ [e]) ! (?k + (length ?d - 2))"
    using ge2 by (subst nth_drop) auto
  also have "\<dots> = last evs"
    using assms by (simp only: idx) (simp add: nth_append last_conv_nth)
  finally have "keyEvents (analyzerRun (evs @ [e])) ! (length ?d - 2) = hashedEvent (last evs)" .
  moreover have "length (keyEvents (analyzerRun (evs @ [e]))) = length ?d"
    unfolding ke by (rule length_map)
  ultimately show ?thesis
    by (simp only: timestamp_hashedEvent)
qed

lemma timingBuffer_run:
  "timingBuffer (analyzerRun evs) = drop (length (eventIntervals evs) - 100) (eventIntervals evs)"
proof (induction evs rule: rev_induct)
  case Nil
  then show ?case by (simp add: analyzerRun_def newKeystrokeTimingAnalyzer_def)
next
  case (snoc e evs)
  show ?case
  proof (cases "evs = []")
    case True
    then show ?thesis
      by (simp add: analyzerRun_snoc timingBuffer_step keyEvents_step Let_def analyzerRun_def
          newKeystrokeTimingAnalyzer_def)
  next
    case False
    let ?ivs = "eventIntervals evs"
    let ?iv = "timestamp e - timestamp (last evs)"
    have len2: "length (keyEvents (analyzerRun (evs @ [e]))) > 1"
      using False by (cases evs) (auto simp: keyEvents_run)
    have step: "timingBuffer (analyzerRun (evs @ [e])) =
        (let tb1 = timingBuffer (analyzerRun evs) @ [?iv] in if length tb1 > 100 then tl tb1 else tb1)"
      using len2 previous_event[OF False, of e]
      by (simp add: analyzerRun_snoc[symmetric]
          timingBuffer_step[of e "analyzerRun evs", folded analyzerRun_snoc] Let_def)
    show ?thesis
    proof (cases "length ?ivs < 100")
      case True
      then show ?thesis using False snoc by (simp add: step eventIntervals_snoc Let_def)
    next
      case f: False
      then have ne: "drop (length ?ivs - 100) ?ivs \<noteq> []" by simp
      have "tl (drop (length ?ivs - 100) ?ivs @ [?iv]) = drop (Suc (length ?ivs - 100)) ?ivs @ [?iv]"
        using ne by (simp add: tl_drop drop_Suc)
      moreover have "Suc (length ?ivs) - 100 = Suc (length ?ivs - 100)" using f by simp
      ultimately show ?thesis using False f snoc by (simp add: step eventIntervals_snoc Let_def)
    qed
  qed
qed


text \<open>
  Claim C3. \<open>extractTimingPatterns\<close> returns the all-zero pattern when fewer than two
  intervals are buffered. Otherwise \<open>averageInterval\<close> is the mean and \<open>variance\<close> the
  population variance of the buffered intervals, \<open>rhythm\<close> is the list of the 5-wide
  moving averages over the buffer, which has \<open>len - 4\<close> elements and is empty when there
  are fewer than five intervals, \<open>pauseCount\<close> counts the intervals strictly above
  1000 ms and \<open>burstCount\<close> those strictly below 100 ms.
\<close>

theorem extractTimingPatterns_meets_spec:
  "extractTimingPatterns a =
     (if length (timingBuffer a) < 2
      then \<lparr>averageInterval = 0, variance = 0, rhythm = [], pauseCount = 0, burstCount = 0\<rparr>
      else \<lparr>averageInterval = spec_mean (timingBuffer a),
            variance = spec_populationVariance (timingBuffer a),
            rhythm = spec_movingAverages (timingBuffer a),
            pauseCount = length (filter (\<lambda>x. 1000 < x) (timingBuffer a)),
            burstCount = length (filter (\<lambda>x. x < 100) (timingBuffer a))\<rparr>)
   \<and> length (spec_movingAverages (timingBuffer a)) = length (timingBuffer a) - 4
   \<and> (length (timingBuffer a) < 5 \<longrightarrow> spec_movingAverages (timingBuffer a) = [])"
  by (simp add: extractTimingPatterns_def getDefaultPattern_def calculateMean_spec calculateVariance_spec
      calculateRhythm_spec countPauses_def countBursts_def pauseThreshold_def burstThreshold_def Let_def
      spec_movingAverages_def)

text \<open>
  The example of the specification: two gaps below 100 ms and one gap above 1000 ms give
  \<open>burstCount = 2\<close> and \<open>pauseCount = 1\<close>; three intervals give no rhythm.
\<close>

theorem extractTimingPatterns_meets_spec_witness:
  "timingBuffer (analyzerRun pauseBurstEvents) = [50, 50, 1500]
   \<and> length (timingBuffer (analyzerRun pauseBurstEvents)) < 5
   \<and> burstCount (extractTimingPatterns (analyzerRun pauseBurstEvents)) = 2
   \<and> pauseCount (extractTimingPatterns (analyzerRun pauseBurstEvents)) = 1
   \<and> rhythm (extractTimingPatterns (analyzerRun pauseBurstEvents)) = []"
proof -
  have tb: "timingBuffer (analyzerRun pauseBurstEvents) = [50, 50, 1500]"
    by (simp add: timingBuffer_run pauseBurstEvents_def keyEventAt_def)
  show ?thesis
    using extractTimingPatterns_meets_spec [of "analyzerRun pauseBurstEvents"]
    by (simp add: tb)
qed


section \<open>Fatigue detection\<close>

lemma detectFatigue_short:
  "length (metricsHistory e) \<le> 10 \<Longrightarrow> detectFatigue e = getDefaultFatigueIndicators"
  by (auto simp: detectFatigue_def fatigueWindowSize_def slice_def slice_index_def Let_def)

lemma detectFatigue_history: "metricsHistory e = metricsHistory e' \<Longrightarrow> detectFatigue e = detectFatigue e'"
  by (simp add: detectFatigue_def)

text \<open>
  Claim C9. \<open>detectFatigue\<close> returns the all-zero indicators not only when the history
  has fewer than 10 entries but also when it has exactly 10: the window before the most
  recent 10 entries is then empty. An indicator that is not zero needs at least 11
  entries.
\<close>

theorem detectFatigue_zero_up_to_ten_entries:
  assumes "length (metricsHistory e) \<le> 10"
  shows "detectFatigue e =
           \<lparr>typingSpeedDecline = 0, increasedPauseFrequency = 0,
            rhythmInconsistency = 0, overallFatigueScore = 0\<rparr>"
  using detectFatigue_short [OF assms] by (simp add: getDefaultFatigueIndicators_def)

theorem detectFatigue_zero_up_to_ten_entries_witness:
  "length (metricsHistory tenEntryEngine) = 10
   \<and> detectFatigue tenEntryEngine =
       \<lparr>typingSpeedDecline = 0, increasedPauseFrequency = 0,
        rhythmInconsistency = 0, overallFatigueScore = 0\<rparr>"
proof -
  have len: "length (metricsHistory tenEntryEngine) = 10"
    by (simp add: tenEntryEngine_def)
  then have "length (metricsHistory tenEntryEngine) \<le> 10" by simp
  from detectFatigue_zero_up_to_ten_entries [OF this] len show ?thesis by simp
qed

subsection \<open>A session whose fatigue score exceeds one\<close>

lemma fatigueLevel_calculateMetrics:
  "fatigueLevel (fst (calculateMetrics now rnd as e)) = overallFatigueScore (detectFatigue e)"
  by (simp add: calculateMetrics_def Let_def calculateFatigueLevel_def
      detectFatigue_history[of "e\<lparr>keystrokeAnalyzer := a\<rparr>" e for a])

lemma calculateMetrics_step:
  assumes "length (metricsHistory e) < 1000" "sessionStartTime (patternStorage e) = real now"
  shows "snd (calculateMetrics now rnd as e) =
     e\<lparr>keystrokeAnalyzer := foldl feedKeystroke (keystrokeAnalyzer e) (filter (\<lambda>a. a_type a = KEYSTROKE) as),
       metricsHistory := metricsHistory e @
         [\<lparr>tm_timestamp = real now,
           metrics = statsMetrics (foldl feedKeystroke (keystrokeAnalyzer e) (filter (\<lambda>a. a_type a = KEYSTROKE) as))
                      (countContextSwitches as) (overallFatigueScore (detectFatigue e)),
           sessionId = currentSession (patternStorage e),
           tm_duration = 0\<rparr>]\<rparr>"
  using assms
  by (simp add: calculateMetrics_def Let_def calculateFatigueLevel_def storeMetrics_def push_def
      getSessionDuration_def sessionTimeoutMs_def maxHistorySize_def statsMetrics_def analyzeStatistics_def
      detectFatigue_history[of "e\<lparr>keystrokeAnalyzer := a\<rparr>" e for a])

lemma feedKeystroke_keystrokeAt:
  "feedKeystroke a (keystrokeAt ts) =
     processKeystroke
       \<lparr>key = str ''key_1'', timestamp = ts, etype = keydown,
        ctrlKey = False, shiftKey = False, altKey = False\<rparr> a"
  by (simp add: feedKeystroke_def keystrokeAt_def noMetadata_def str_def)

lemma analyzerAfter_two:
  "map timestamp (keyEvents (analyzerAfter [0, 1500])) = [0, 1500]
   \<and> timingBuffer (analyzerAfter [0, 1500]) = [1500]"
  by (simp add: analyzerAfter_def feedKeystroke_keystrokeAt processKeystroke_def Let_def push_def
      shift_def analyzerBufferSize_def newKeystrokeTimingAnalyzer_def)

lemma analyzerAfter_five:
  "map timestamp (keyEvents (analyzerAfter [0, 1500, 3000, 4500, 6000])) = [0, 1500, 3000, 4500, 6000]
   \<and> timingBuffer (analyzerAfter [0, 1500, 3000, 4500, 6000]) = [1500, 1500, 1500, 1500]"
  by (simp add: analyzerAfter_def feedKeystroke_keystrokeAt processKeystroke_def Let_def push_def
      shift_def analyzerBufferSize_def newKeystrokeTimingAnalyzer_def)

lemma typingSpeed_timestamps:
  "calculateTypingSpeed a =
     (let ts = map timestamp (keyEvents a)
      in if length ts < 2 then 0
         else if (last ts - hd ts) / (1000 * 60) > 0
              then (real (length ts) / 5) / ((last ts - hd ts) / (1000 * 60)) else 0)"
  by (cases "keyEvents a = []") (simp_all add: calculateTypingSpeed_def Let_def last_map hd_map)

lemma metrics_after_two:
  "statsMetrics (analyzerAfter [0, 1500]) 0 0 =
     \<lparr>typingSpeed = 16, pausePatterns = [1, 0, 0], decisionTime = 1500,
      contextSwitchCount = 0, fatigueLevel = 0\<rparr>"
  by (simp add: statsMetrics_def typingSpeed_timestamps analyzerAfter_two analyzePausePatterns_def
      calculateDecisionTime_def pauseThreshold_def calculateMean_def reduce_sum_def)

lemma metrics_after_five:
  "statsMetrics (analyzerAfter [0, 1500, 3000, 4500, 6000]) 0 0 =
     \<lparr>typingSpeed = 10, pausePatterns = [4, 0, 0], decisionTime = 1500,
      contextSwitchCount = 0, fatigueLevel = 0\<rparr>"
  by (simp add: statsMetrics_def typingSpeed_timestamps analyzerAfter_five analyzePausePatterns_def
      calculateDecisionTime_def pauseThreshold_def calculateMean_def reduce_sum_def)

lemma engineRun_Cons:
  "engineRun now rnd e (as # calls) = engineRun now rnd (snd (calculateMetrics now rnd as e)) calls"
  by (simp add: engineRun_def)

lemma idle_calls:
  assumes "sessionStartTime (patternStorage e) = 0" "length (metricsHistory e) + n \<le> 11"
  shows "engineRun 0 rnd e (replicate n []) =
     e\<lparr>metricsHistory := metricsHistory e @
         replicate n (entry (currentSession (patternStorage e)) (statsMetrics (keystrokeAnalyzer e) 0 0))\<rparr>"
  using assms
proof (induction n arbitrary: e)
  case 0
  then show ?case by (simp add: engineRun_def)
next
  case (Suc n)
  let ?tm = "entry (currentSession (patternStorage e)) (statsMetrics (keystrokeAnalyzer e) 0 0)"
  let ?e1 = "e\<lparr>metricsHistory := metricsHistory e @ [?tm]\<rparr>"
  have short: "length (metricsHistory e) \<le> 10" using Suc.prems by simp
  have step: "snd (calculateMetrics 0 rnd [] e) = ?e1"
    using Suc.prems
    by (subst calculateMetrics_step)
       (simp_all add: detectFatigue_short[OF short] getDefaultFatigueIndicators_def
          countContextSwitches_def entry_def)
  have "engineRun 0 rnd e (replicate (Suc n) []) = engineRun 0 rnd ?e1 (replicate n [])"
    by (simp add: engineRun_Cons step)
  also have "\<dots> = ?e1\<lparr>metricsHistory := metricsHistory ?e1 @
         replicate n (entry (currentSession (patternStorage ?e1)) (statsMetrics (keystrokeAnalyzer ?e1) 0 0))\<rparr>"
    using Suc.prems by (intro Suc.IH) simp_all
  finally show ?case by (simp add: replicate_append_same)
qed

lemma fatigued_history:
  "metricsHistory fatiguedEngine =
     entry sid0 \<lparr>typingSpeed = 16, pausePatterns = [1, 0, 0], decisionTime = 1500,
                 contextSwitchCount = 0, fatigueLevel = 0\<rparr>
     # replicate 10 (entry sid0 \<lparr>typingSpeed = 10, pausePatterns = [4, 0, 0], decisionTime = 1500,
                                 contextSwitchCount = 0, fatigueLevel = 0\<rparr>)"
proof -
  let ?e0 = "newBehavioralMetricsEngine 0 ''4fzyo82mv'' ''user''"
  let ?c1 = "[keystrokeAt 0, keystrokeAt 1500]"
  let ?c2 = "[keystrokeAt 3000, keystrokeAt 4500, keystrokeAt 6000]"
  let ?e1 = "snd (calculateMetrics 0 ''4fzyo82mv'' ?c1 ?e0)"
  let ?e2 = "snd (calculateMetrics 0 ''4fzyo82mv'' ?c2 ?e1)"
  have ks: "filter (\<lambda>a. a_type a = KEYSTROKE) (map keystrokeAt ts) = map keystrokeAt ts" for ts
    by (induction ts) (simp_all add: keystrokeAt_def)
  have e1: "?e1 = ?e0\<lparr>keystrokeAnalyzer := analyzerAfter [0, 1500],
       metricsHistory := [entry sid0 (statsMetrics (analyzerAfter [0, 1500]) 0 0)]\<rparr>"
    using ks[of "[0, 1500]"]
    by (subst calculateMetrics_step)
       (simp_all add: newBehavioralMetricsEngine_def detectFatigue_short getDefaultFatigueIndicators_def
          countContextSwitches_def entry_def sid0_def analyzerAfter_def keystrokeAt_def)
  have cont: "foldl feedKeystroke (analyzerAfter [0, 1500]) (map keystrokeAt [3000, 4500, 6000])
      = analyzerAfter [0, 1500, 3000, 4500, 6000]"
    by (simp add: analyzerAfter_def)
  have e2: "?e2 = ?e0\<lparr>keystrokeAnalyzer := analyzerAfter [0, 1500, 3000, 4500, 6000],
       metricsHistory := [entry sid0 (statsMetrics (analyzerAfter [0, 1500]) 0 0),
                          entry sid0 (statsMetrics (analyzerAfter [0, 1500, 3000, 4500, 6000]) 0 0)]\<rparr>"
    unfolding e1 using ks[of "[3000, 4500, 6000]"] cont
    by (subst calculateMetrics_step)
       (simp_all add: newBehavioralMetricsEngine_def detectFatigue_short getDefaultFatigueIndicators_def
          countContextSwitches_def entry_def sid0_def keystrokeAt_def)
  have "fatiguedEngine = engineRun 0 ''4fzyo82mv'' ?e2 (replicate 9 [])"
    by (simp add: fatiguedEngine_def fatigueCalls_def engineRun_def)
  also have "\<dots> = ?e2\<lparr>metricsHistory := metricsHistory ?e2 @
         replicate 9 (entry (currentSession (patternStorage ?e2)) (statsMetrics (keystrokeAnalyzer ?e2) 0 0))\<rparr>"
    by (rule idle_calls) (simp_all only: e2, simp_all add: newBehavioralMetricsEngine_def)
  finally have fe: "fatiguedEngine = ?e2\<lparr>metricsHistory := metricsHistory ?e2 @
         replicate 9 (entry (currentSession (patternStorage ?e2)) (statsMetrics (keystrokeAnalyzer ?e2) 0 0))\<rparr>" .
  have "metricsHistory fatiguedEngine = metricsHistory ?e2 @
         replicate 9 (entry (currentSession (patternStorage ?e2)) (statsMetrics (keystrokeAnalyzer ?e2) 0 0))"
    by (subst fe) simp
  then show ?thesis
    unfolding e2
    by (simp add: metrics_after_two metrics_after_five newBehavioralMetricsEngine_def
        sid0_def[symmetric] eval_nat_numeral)
qed

lemma fatigued_indicators:
  "detectFatigue fatiguedEngine =
     \<lparr>typingSpeedDecline = 3 / 8, increasedPauseFrequency = 3,
      rhythmInconsistency = 0, overallFatigueScore = 9 / 8\<rparr>"
  by (simp add: detectFatigue_def fatigued_history fatigueWindowSize_def slice_def slice_from_def
      slice_index_def Let_def entry_def calculateAverageTypingSpeed_def calculateAveragePauseFrequency_def
      calculateAverageRhythmConsistency_def eval_nat_numeral)

text \<open>
  Claim C1. For any finite metrics history, \<open>detectFatigue\<close> returns indicators whose
  \<open>overallFatigueScore\<close> lies in \<open>[0,1]\<close>, and \<open>calculateMetrics\<close> returns metrics whose
  \<open>fatigueLevel\<close> lies in \<open>[0,1]\<close>.

  The code does not keep the bound. In the session \<open>fatiguedEngine\<close> the first history
  entry records one pause and each of the ten later entries four: the increase of the
  pause frequency is 3, it is clamped below at 0 and not above, and the score is
  \<open>(3/8 + 3 + 0) / 3 = 9/8\<close>. The next call of \<open>calculateMetrics\<close> returns that score
  as its \<open>fatigueLevel\<close>.
\<close>

theorem fatigue_score_above_one:
  "overallFatigueScore (detectFatigue fatiguedEngine) = 9 / 8
   \<and> fatigueLevel (fst (calculateMetrics 0 ''4fzyo82mv'' [] fatiguedEngine)) = 9 / 8
   \<and> \<not> overallFatigueScore (detectFatigue fatiguedEngine) \<le> 1"
  by (simp add: fatigueLevel_calculateMetrics fatigued_indicators)


section \<open>Pattern change detection\<close>

lemma calculatePValue_values: "calculatePValue x d \<in> {0.01, 0.05, 0.10, 0.5}"
  by (simp add: calculatePValue_def Let_def)

lemma detectPatternChange_event:
  assumes "detectPatternChange now p sqs t = Some ev"
  shows "statisticalSignificance ev \<in> {0.01, 0.05, 0.10, 0.5}
     \<and> statisticalSignificance ev < patternChangeThreshold (config t)
     \<and> confidence ev = 1 - statisticalSignificance ev"
proof -
  define ms where "ms = map (\<lambda>sq. extractPatternMetric sq p) sqs"
  define pValue where "pValue =
    calculatePValue (performTTest (slice ms 0 (int (length ms div 2))) (slice_from ms (int (length ms div 2))))
      (real (length ms) - 2)"
  have ev: "statisticalSignificance ev = pValue" "confidence ev = 1 - pValue"
    "pValue < patternChangeThreshold (config t)"
    using assms unfolding detectPatternChange_def Let_def ms_def[symmetric] pValue_def[symmetric]
    by (auto split: if_splits)
  have "pValue \<in> {0.01, 0.05, 0.10, 0.5}" unfolding pValue_def by (rule calculatePValue_values)
  with ev show ?thesis by simp
qed

lemma detectPatternChanges_origin:
  "ev \<in> set (detectPatternChanges now t) \<Longrightarrow>
   \<exists>p. detectPatternChange now p (slice_from (sequences t) (- 10)) t = Some ev"
  by (auto simp: detectPatternChanges_def Let_def push_def split: if_splits option.splits)

lemma detectPatternChanges_few: "length (sequences t) < 5 \<Longrightarrow> detectPatternChanges now t = []"
  by (simp add: detectPatternChanges_def slice_from_def slice_index_def)

text \<open>
  Claim C2. \<open>detectPatternChanges\<close> returns the empty list when fewer than 5 of the most
  recent 10 sequences exist. Every event it emits has a \<open>statisticalSignificance\<close> among
  0.01, 0.05, 0.10 and 0.5 that is strictly below the configured
  \<open>patternChangeThreshold\<close>, and a \<open>confidence\<close> equal to \<open>1 - statisticalSignificance\<close>,
  hence in \<open>[0,1]\<close>.
\<close>

theorem detectPatternChanges_events:
  "(length (sequences t) < 5 \<longrightarrow> detectPatternChanges now t = [])
   \<and> (\<forall>ev \<in> set (detectPatternChanges now t).
         statisticalSignificance ev \<in> {0.01, 0.05, 0.10, 0.5}
         \<and> statisticalSignificance ev < patternChangeThreshold (config t)
         \<and> confidence ev = 1 - statisticalSignificance ev
         \<and> 0 \<le> confidence ev \<and> confidence ev \<le> 1)"
proof (intro conjI impI ballI)
  assume "length (sequences t) < 5"
  then show "detectPatternChanges now t = []" by (rule detectPatternChanges_few)
next
  fix ev assume "ev \<in> set (detectPatternChanges now t)"
  then obtain p where "detectPatternChange now p (slice_from (sequences t) (- 10)) t = Some ev"
    using detectPatternChanges_origin by blast
  then have ev: "statisticalSignificance ev \<in> {0.01, 0.05, 0.10, 0.5}
     \<and> statisticalSignificance ev < patternChangeThreshold (config t)
     \<and> confidence ev = 1 - statisticalSignificance ev"
    by (rule detectPatternChange_event)
  then show "statisticalSignificance ev \<in> {0.01, 0.05, 0.10, 0.5}"
    and "statisticalSignificance ev < patternChangeThreshold (config t)"
    and "confidence ev = 1 - statisticalSignificance ev"
    by simp_all
  from ev show "0 \<le> confidence ev" and "confidence ev \<le> 1" by auto
qed

text \<open>
  A tracker with the default threshold 0.05 and six sequences whose spans drop from
  9, 9, 12 to 0, 0, 0: the t statistic of the spans is 10 and one event is emitted, with
  significance 0.01 and confidence 0.99. A new tracker emits nothing.
\<close>

lemma shifted_typing_rhythm:
  "map (\<lambda>sq. extractPatternMetric sq ''typing_rhythm'') shiftedSequences = [0, 0, 0, 0, 0, 0]"
  by (simp add: shiftedSequences_def exampleSequence_def extractPatternMetric_def
      calculateTypingRhythm_def mouseMove_def)

lemma shifted_context_switching:
  "map (\<lambda>sq. extractPatternMetric sq ''context_switching'') shiftedSequences = [0, 0, 0, 0, 0, 0]"
  by (simp add: shiftedSequences_def exampleSequence_def extractPatternMetric_def
      calculateContextSwitchingRate_def mouseMove_def)

lemma shifted_focus_duration:
  "map (\<lambda>sq. extractPatternMetric sq ''focus_duration'') shiftedSequences = [9, 9, 12, 0, 0, 0]"
  by (simp add: shiftedSequences_def exampleSequence_def extractPatternMetric_def)

lemma performTTest_zero: "performTTest [0, 0, 0] [0, 0, 0] = 0"
  by (simp add: performTTest_def reduce_sum_def)

lemma performTTest_shift: "performTTest [9, 9, 12] [0, 0, 0] = 10"
  by (simp add: performTTest_def reduce_sum_def Let_def)

lemma shiftedTracker_threshold: "patternChangeThreshold (config shiftedTracker) = 0.05"
  by (simp add: shiftedTracker_def smallTracker_def newBehavioralSequenceTracker_def or_number_def
      noOverride_def)

lemma shifted_changes: "detectPatternChanges 0 shiftedTracker = [shiftEvent]"
proof -
  have len: "length shiftedSequences = 6" by (simp add: shiftedSequences_def)
  have s: "sequences shiftedTracker = shiftedSequences" by (simp add: shiftedTracker_def)
  have sl: "slice_from shiftedSequences (- 10) = shiftedSequences"
    by (simp add: slice_from_def slice_index_def len)
  have d1: "detectPatternChange 0 ''typing_rhythm'' shiftedSequences shiftedTracker = None"
    by (simp add: detectPatternChange_def shifted_typing_rhythm slice_def slice_from_def slice_index_def
        performTTest_zero calculatePValue_def shiftedTracker_threshold)
  have d2: "detectPatternChange 0 ''context_switching'' shiftedSequences shiftedTracker = None"
    by (simp add: detectPatternChange_def shifted_context_switching slice_def slice_from_def
        slice_index_def performTTest_zero calculatePValue_def shiftedTracker_threshold)
  have d3: "detectPatternChange 0 ''focus_duration'' shiftedSequences shiftedTracker = Some shiftEvent"
    by (simp add: detectPatternChange_def shifted_focus_duration slice_def slice_from_def slice_index_def
        performTTest_shift calculatePValue_def shiftedTracker_threshold shiftEvent_def
        determineChangeType_def reduce_sum_def)
  show ?thesis
    by (simp add: detectPatternChanges_def s sl len d1 d2 d3 push_def)
qed

theorem detectPatternChanges_events_witness:
  "length (sequences defaultTracker) < 5
   \<and> detectPatternChanges 0 defaultTracker = []
   \<and> shiftEvent \<in> set (detectPatternChanges 0 shiftedTracker)
   \<and> statisticalSignificance shiftEvent = 0.01
   \<and> statisticalSignificance shiftEvent < patternChangeThreshold (config shiftedTracker)
   \<and> confidence shiftEvent = 1 - statisticalSignificance shiftEvent
   \<and> 0 \<le> confidence shiftEvent \<and> confidence shiftEvent \<le> 1"
proof -
  have few: "length (sequences defaultTracker) < 5"
    by (simp add: defaultTracker_def newBehavioralSequenceTracker_def)
  have mem: "shiftEvent \<in> set (detectPatternChanges 0 shiftedTracker)"
    by (simp add: shifted_changes)
  show ?thesis
    using detectPatternChanges_events [of defaultTracker 0] few
      detectPatternChanges_events [of shiftedTracker 0] mem
    by (auto simp: shiftEvent_def)
qed


section \<open>The sequence tracker\<close>

subsection \<open>What each step leaves unchanged\<close>

lemma endCurrentFocusSegment_frame [simp]:
  "actionBuffer (endCurrentFocusSegment ts t) = actionBuffer t"
  "config (endCurrentFocusSegment ts t) = config t"
  "sequences (endCurrentFocusSegment ts t) = sequences t"
  "contextSwitches (endCurrentFocusSegment ts t) = contextSwitches t"
  "currentContext (endCurrentFocusSegment ts t) = currentContext t"
  "sequenceIdCounter (endCurrentFocusSegment ts t) = sequenceIdCounter t"
  by (simp_all add: endCurrentFocusSegment_def split: option.splits)

lemma startNewFocusSegment_frame [simp]:
  "actionBuffer (startNewFocusSegment ts c t) = actionBuffer t"
  "config (startNewFocusSegment ts c t) = config t"
  "sequences (startNewFocusSegment ts c t) = sequences t"
  "contextSwitches (startNewFocusSegment ts c t) = contextSwitches t"
  "currentContext (startNewFocusSegment ts c t) = currentContext t"
  "sequenceIdCounter (startNewFocusSegment ts c t) = sequenceIdCounter t"
  by (simp_all add: startNewFocusSegment_def)

lemma detectContextSwitch_frame [simp]:
  "actionBuffer (detectContextSwitch a t) = actionBuffer t"
  "config (detectContextSwitch a t) = config t"
  "sequences (detectContextSwitch a t) = sequences t"
  "sequenceIdCounter (detectContextSwitch a t) = sequenceIdCounter t"
  by (simp_all add: detectContextSwitch_def Let_def split: option.splits)

lemma updateFocusTracking_frame [simp]:
  "actionBuffer (updateFocusTracking a t) = actionBuffer t"
  "config (updateFocusTracking a t) = config t"
  "sequences (updateFocusTracking a t) = sequences t"
  "contextSwitches (updateFocusTracking a t) = contextSwitches t"
  "currentContext (updateFocusTracking a t) = currentContext t"
  "sequenceIdCounter (updateFocusTracking a t) = sequenceIdCounter t"
  by (simp_all add: updateFocusTracking_def Let_def split: option.splits)

lemma checkSequenceCompletion_frame [simp]:
  "config (checkSequenceCompletion now hours t) = config t"
  "contextSwitches (checkSequenceCompletion now hours t) = contextSwitches t"
  "currentContext (checkSequenceCompletion now hours t) = currentContext t"
  by (simp_all add: checkSequenceCompletion_def completeCurrentSequence_def Let_def)

lemma config_recordAction [simp]: "config (recordAction now hours a t) = config t"
  by (simp add: recordAction_def Let_def)

lemma trackerRun_snoc:
  "trackerRun t (calls @ [(now, hours, a)]) = recordAction now hours a (trackerRun t calls)"
  by (simp add: trackerRun_def)

lemma config_trackerRun [simp]: "config (trackerRun t calls) = config t"
proof (induction calls rule: rev_induct)
  case Nil
  then show ?case by (simp add: trackerRun_def)
next
  case (snoc c calls)
  obtain now hours a where c: "c = (now, hours, a)" by (cases c)
  show ?case using snoc by (simp add: c trackerRun_snoc)
qed

subsection \<open>The action buffer and the sequence history\<close>

lemma actionBuffer_recordAction:
  "actionBuffer (recordAction now hours a t) =
     (if real (length (bufferAfterPush t a)) \<ge> bufferSize (config t) \<and> bufferAfterPush t a \<noteq> []
      then [] else bufferAfterPush t a)"
  by (simp add: recordAction_def Let_def push_def shift_def checkSequenceCompletion_def
      completeCurrentSequence_def bufferAfterPush_def)

lemma sequences_recordAction:
  "sq \<in> set (sequences (recordAction now hours a t)) \<Longrightarrow>
   sq \<in> set (sequences t) \<or>
   (actions sq = bufferAfterPush t a \<and> real (length (bufferAfterPush t a)) \<ge> bufferSize (config t))"
  by (auto simp: recordAction_def Let_def push_def shift_def checkSequenceCompletion_def
      completeCurrentSequence_def bufferAfterPush_def maxSequences_def
      split: if_splits dest!: in_set_tl)

lemma last_sequence_complete:
  assumes "actionBuffer t \<noteq> []"
  shows "sequences (completeCurrentSequence now hours t) \<noteq> [] \<and>
         actions (last (sequences (completeCurrentSequence now hours t))) = actionBuffer t"
proof -
  have tl_snoc: "tl (xs @ [x]) \<noteq> [] \<and> last (tl (xs @ [x])) = x" if "length (xs @ [x]) > 100"
    for xs :: "ActionSequence list" and x
    using that by (cases xs) auto
  show ?thesis
    using assms tl_snoc
    by (simp add: Let_def push_def shift_def completeCurrentSequence_def maxSequences_def)
qed

lemma last_sequence_recordAction:
  assumes "real (length (bufferAfterPush t a)) \<ge> bufferSize (config t)" and "bufferAfterPush t a \<noteq> []"
  shows "sequences (recordAction now hours a t) \<noteq> [] \<and>
         actions (last (sequences (recordAction now hours a t))) = bufferAfterPush t a"
proof -
  define t4 where "t4 =
    (let t1 = t\<lparr>actionBuffer := push (actionBuffer t) a, lastActivityTime := newDate (a_timestamp a)\<rparr>;
         t2 = (if real (length (actionBuffer t1)) > bufferSize (config t1)
               then t1\<lparr>actionBuffer := shift (actionBuffer t1)\<rparr> else t1)
     in updateFocusTracking a (detectContextSwitch a t2))"
  have b: "actionBuffer t4 = bufferAfterPush t a" and c: "config t4 = config t"
    by (simp_all add: t4_def Let_def bufferAfterPush_def push_def shift_def)
  have "recordAction now hours a t = checkSequenceCompletion now hours t4"
    by (simp add: recordAction_def t4_def Let_def)
  also have "\<dots> = completeCurrentSequence now hours t4"
    using assms(1) by (simp add: checkSequenceCompletion_def b c)
  finally show ?thesis
    using last_sequence_complete[of t4 now hours] assms(2) by (simp add: b)
qed


lemma buffer_strict:
  "0 < bufferSize (config t) \<Longrightarrow>
   real (length (actionBuffer (recordAction now hours a t))) < bufferSize (config t)"
  by (cases "bufferSize (config t) \<le> real (length (bufferAfterPush t a))")
     (auto simp: actionBuffer_recordAction)


lemma sequenceInv_step:
  assumes "sequenceInv t"
  shows "sequenceInv (recordAction now hours a t)"
proof -
  let ?b = "bufferSize (config t)"
  from assms have lt: "real (length (actionBuffer t)) < ?b"
    and sq: "\<forall>sq \<in> set (sequences t). real (length (actions sq)) = ?b"
    by (simp_all add: sequenceInv_def)
  have pos: "0 < ?b" using lt by (smt (verit) of_nat_0_le_iff)
  have le: "real (length (bufferAfterPush t a)) \<le> ?b"
    using lt by (auto simp: bufferAfterPush_def)
  have "\<forall>sq \<in> set (sequences (recordAction now hours a t)). real (length (actions sq)) = ?b"
  proof
    fix s assume "s \<in> set (sequences (recordAction now hours a t))"
    then have "s \<in> set (sequences t) \<or>
      (actions s = bufferAfterPush t a \<and> real (length (bufferAfterPush t a)) \<ge> ?b)"
      by (rule sequences_recordAction)
    then show "real (length (actions s)) = ?b" using sq le by auto
  qed
  moreover have "real (length (actionBuffer (recordAction now hours a t))) < ?b"
    using pos by (rule buffer_strict)
  ultimately show ?thesis by (simp add: sequenceInv_def)
qed

lemma sequenceInv_run: "sequenceInv t \<Longrightarrow> sequenceInv (trackerRun t calls)"
proof (induction calls rule: rev_induct)
  case Nil
  then show ?case by (simp add: trackerRun_def)
next
  case (snoc c calls)
  obtain now hours a where c: "c = (now, hours, a)" by (cases c)
  show ?case using snoc by (simp add: c trackerRun_snoc sequenceInv_step)
qed

lemma sequenceInv_new:
  "0 < bufferSize (config (newBehavioralSequenceTracker now cfg)) \<Longrightarrow>
   sequenceInv (newBehavioralSequenceTracker now cfg)"
  by (simp add: sequenceInv_def newBehavioralSequenceTracker_def)

lemma smallTracker_config: "bufferSize (config smallTracker) = 2"
  by (simp add: smallTracker_def newBehavioralSequenceTracker_def or_number_def noOverride_def)

lemma smallTracker_first: "actionBuffer (recordAction 0 0 (mouseMove 0) smallTracker) = [mouseMove 0]"
proof -
  have "actionBuffer smallTracker = []"
    by (simp add: smallTracker_def newBehavioralSequenceTracker_def)
  then have "bufferAfterPush smallTracker (mouseMove 0) = [mouseMove 0]"
    by (simp add: bufferAfterPush_def smallTracker_config)
  then show ?thesis by (simp add: actionBuffer_recordAction smallTracker_config)
qed

lemma smallTracker_second:
  "bufferAfterPush (recordAction 0 0 (mouseMove 0) smallTracker) (mouseMove 9) = [mouseMove 0, mouseMove 9]"
  by (simp add: bufferAfterPush_def smallTracker_first smallTracker_config)

lemma smallTracker_run:
  "trackerRun smallTracker [(0, 0, mouseMove 0), (0, 0, mouseMove 9)] =
     recordAction 0 0 (mouseMove 9) (recordAction 0 0 (mouseMove 0) smallTracker)"
  by (simp add: trackerRun_def)




lemma appended_sequence_size:
  assumes "real (length (actionBuffer t)) < bufferSize (config t)"
    and "sq \<in> set (sequences (recordAction now hours a t))"
  shows "sq \<in> set (sequences t) \<or> real (length (actions sq)) = bufferSize (config t)"
proof -
  have le: "real (length (bufferAfterPush t a)) \<le> bufferSize (config t)"
    using assms(1) by (auto simp: bufferAfterPush_def)
  from sequences_recordAction [OF assms(2)] le show ?thesis by auto
qed

lemma defaultTracker_config: "bufferSize (config defaultTracker) = 50"
  by (simp add: defaultTracker_def newBehavioralSequenceTracker_def or_number_def noOverride_def)

lemma defaultTracker_three_moves:
  "actionBuffer (trackerRun defaultTracker [(0, 0, mouseMove 0), (0, 0, mouseMove 10), (0, 0, mouseMove 20)])
     = [mouseMove 0, mouseMove 10, mouseMove 20]
   \<and> sequences (trackerRun defaultTracker [(0, 0, mouseMove 0), (0, 0, mouseMove 10), (0, 0, mouseMove 20)])
     = []"
proof -
  let ?t1 = "recordAction 0 0 (mouseMove 0) defaultTracker"
  let ?t2 = "recordAction 0 0 (mouseMove 10) ?t1"
  let ?t3 = "recordAction 0 0 (mouseMove 20) ?t2"
  have b0: "actionBuffer defaultTracker = []" and s0: "sequences defaultTracker = []"
    by (simp_all add: defaultTracker_def newBehavioralSequenceTracker_def)
  have p1: "bufferAfterPush defaultTracker (mouseMove 0) = [mouseMove 0]"
    by (simp add: bufferAfterPush_def b0 defaultTracker_config)
  have b1: "actionBuffer ?t1 = [mouseMove 0]"
    by (simp add: actionBuffer_recordAction p1 defaultTracker_config)
  have p2: "bufferAfterPush ?t1 (mouseMove 10) = [mouseMove 0, mouseMove 10]"
    by (simp add: bufferAfterPush_def b1 defaultTracker_config)
  have b2: "actionBuffer ?t2 = [mouseMove 0, mouseMove 10]"
    by (simp add: actionBuffer_recordAction p2 defaultTracker_config)
  have p3: "bufferAfterPush ?t2 (mouseMove 20) = [mouseMove 0, mouseMove 10, mouseMove 20]"
    by (simp add: bufferAfterPush_def b2 defaultTracker_config)
  have b3: "actionBuffer ?t3 = [mouseMove 0, mouseMove 10, mouseMove 20]"
    by (simp add: actionBuffer_recordAction p3 defaultTracker_config)
  have none: "set (sequences (recordAction now hours a t)) \<subseteq> set (sequences t)"
    if "real (length (bufferAfterPush t a)) < bufferSize (config t)" for now hours a t
    using that sequences_recordAction [of _ now hours a t] by force
  have "set (sequences ?t1) \<subseteq> {}"
    using none [of defaultTracker "mouseMove 0" 0 0] by (simp add: p1 s0 defaultTracker_config)
  then have s1: "sequences ?t1 = []" by simp
  have "set (sequences ?t2) \<subseteq> {}"
    using none [of ?t1 "mouseMove 10" 0 0] by (simp add: p2 s1 defaultTracker_config)
  then have s2: "sequences ?t2 = []" by simp
  have "set (sequences ?t3) \<subseteq> {}"
    using none [of ?t2 "mouseMove 20" 0 0] by (simp add: p3 s2 defaultTracker_config)
  then have s3: "sequences ?t3 = []" by simp
  have run: "trackerRun defaultTracker [(0, 0, mouseMove 0), (0, 0, mouseMove 10), (0, 0, mouseMove 20)] = ?t3"
    by (simp add: trackerRun_def)
  show ?thesis unfolding run using b3 s3 by simp
qed

lemma reconfiguredTracker_state:
  "bufferSize (config reconfiguredTracker) = 2
   \<and> actionBuffer reconfiguredTracker = [mouseMove 0, mouseMove 10, mouseMove 20]
   \<and> sequences reconfiguredTracker = []"
  using defaultTracker_three_moves
  by (simp add: reconfiguredTracker_def updateConfig_def smallerOverride_def noOverride_def)

text \<open>
  Claim C10. With a positive configured \<open>bufferSize\<close>, every sequence appended to the
  sequence history contains exactly \<open>bufferSize\<close> actions, and immediately after every
  \<open>recordAction\<close> call the action buffer holds strictly fewer than \<open>bufferSize\<close> actions.

  The first part fails when \<open>updateConfig\<close> lowers \<open>bufferSize\<close> while actions are
  buffered: with three buffered actions and the buffer size set to 2, the next call
  drops one action, and completes a sequence of three actions.
\<close>

theorem reconfigured_sequence_counterexample:
  "0 < bufferSize (config reconfiguredTracker)
   \<and> bufferSize (config (recordAction 0 0 (mouseMove 30) reconfiguredTracker)) = 2
   \<and> sequences reconfiguredTracker = []
   \<and> sequences (recordAction 0 0 (mouseMove 30) reconfiguredTracker) \<noteq> []
   \<and> actions (last (sequences (recordAction 0 0 (mouseMove 30) reconfiguredTracker)))
        = [mouseMove 10, mouseMove 20, mouseMove 30]
   \<and> real (length (actions (last (sequences (recordAction 0 0 (mouseMove 30) reconfiguredTracker)))))
        \<noteq> bufferSize (config (recordAction 0 0 (mouseMove 30) reconfiguredTracker))"
proof -
  have p: "bufferAfterPush reconfiguredTracker (mouseMove 30) = [mouseMove 10, mouseMove 20, mouseMove 30]"
    using reconfiguredTracker_state by (simp add: bufferAfterPush_def)
  have "sequences (recordAction 0 0 (mouseMove 30) reconfiguredTracker) \<noteq> [] \<and>
        actions (last (sequences (recordAction 0 0 (mouseMove 30) reconfiguredTracker)))
          = bufferAfterPush reconfiguredTracker (mouseMove 30)"
    using reconfiguredTracker_state by (intro last_sequence_recordAction) (simp_all add: p)
  then show ?thesis using reconfiguredTracker_state by (simp add: p)
qed

text \<open>
  Claim C10, amended. With a positive configured \<open>bufferSize\<close> that is not changed after
  construction, every sequence in the sequence history contains exactly \<open>bufferSize\<close>
  actions, after every run of \<open>recordAction\<close> calls. For a single call from any state,
  every sequence the call appends contains exactly \<open>bufferSize\<close> actions when the buffer
  held fewer than \<open>bufferSize\<close> actions before the call. Immediately after every
  \<open>recordAction\<close> call, from any state with a positive \<open>bufferSize\<close>, the action buffer
  holds strictly fewer than \<open>bufferSize\<close> actions.
\<close>

theorem sequences_hold_bufferSize_actions:
  assumes "0 < bufferSize (config (newBehavioralSequenceTracker now0 cfg))"
  shows "(\<forall>sq \<in> set (sequences (trackerRun (newBehavioralSequenceTracker now0 cfg) calls)).
            real (length (actions sq)) = bufferSize (config (newBehavioralSequenceTracker now0 cfg)))
       \<and> real (length (actionBuffer (trackerRun (newBehavioralSequenceTracker now0 cfg) calls)))
            < bufferSize (config (newBehavioralSequenceTracker now0 cfg))
       \<and> (real (length (actionBuffer t)) < bufferSize (config t) \<longrightarrow>
            (\<forall>sq \<in> set (sequences (recordAction now hours a t)).
               sq \<in> set (sequences t) \<or> real (length (actions sq)) = bufferSize (config t)))
       \<and> (0 < bufferSize (config t) \<longrightarrow>
            real (length (actionBuffer (recordAction now hours a t))) < bufferSize (config t))"
  using sequenceInv_run [OF sequenceInv_new [OF assms], of calls] buffer_strict [of t now hours a]
    appended_sequence_size [of t _ now hours a]
  by (simp add: sequenceInv_def)

text \<open>
  A tracker with buffer size 2 completes a sequence of exactly its two actions at the
  second call and is left with an empty buffer.
\<close>

theorem sequences_hold_bufferSize_actions_witness:
  "0 < bufferSize (config smallTracker)
   \<and> sequences (trackerRun smallTracker [(0, 0, mouseMove 0), (0, 0, mouseMove 9)]) \<noteq> []
   \<and> actions (last (sequences (trackerRun smallTracker [(0, 0, mouseMove 0), (0, 0, mouseMove 9)])))
        = [mouseMove 0, mouseMove 9]
   \<and> real (length (actions (last (sequences
        (trackerRun smallTracker [(0, 0, mouseMove 0), (0, 0, mouseMove 9)])))))
        = bufferSize (config smallTracker)
   \<and> real (length (actionBuffer (trackerRun smallTracker [(0, 0, mouseMove 0), (0, 0, mouseMove 9)])))
        < bufferSize (config smallTracker)"
proof -
  let ?run = "trackerRun smallTracker [(0, 0, mouseMove 0), (0, 0, mouseMove 9)]"
  have pos: "0 < bufferSize (config smallTracker)" by (simp add: smallTracker_config)
  have last: "sequences ?run \<noteq> [] \<and> actions (last (sequences ?run)) = [mouseMove 0, mouseMove 9]"
    using last_sequence_recordAction [of "recordAction 0 0 (mouseMove 0) smallTracker" "mouseMove 9" 0 0]
    by (simp add: smallTracker_run smallTracker_second smallTracker_config)
  then have mem: "last (sequences ?run) \<in> set (sequences ?run)" by simp
  have all: "(\<forall>sq \<in> set (sequences ?run). real (length (actions sq)) = bufferSize (config smallTracker))
       \<and> real (length (actionBuffer ?run)) < bufferSize (config smallTracker)"
    using sequences_hold_bufferSize_actions
      [of 0 "noOverride\<lparr>p_bufferSize := Some 2\<rparr>" "[(0, 0, mouseMove 0), (0, 0, mouseMove 9)]"
          smallTracker 0 0 "mouseMove 0"] pos
    by (simp add: smallTracker_def)
  with mem have "real (length (actions (last (sequences ?run)))) = bufferSize (config smallTracker)"
    by blast
  with pos last all show ?thesis by blast
qed

subsection \<open>Context switches\<close>

lemma reason_cong:
  "lastActivityTime t = lastActivityTime t' \<Longrightarrow> config t = config t' \<Longrightarrow>
   determineContextSwitchReason a t = determineContextSwitchReason a t'"
  by (simp add: determineContextSwitchReason_def split: ActionType.splits)

lemma contextSwitches_detectContextSwitch:
  "contextSwitches (detectContextSwitch a t) =
     (case newContextOf a of
        None \<Rightarrow> contextSwitches t
      | Some l \<Rightarrow>
          if currentContext t \<noteq> [] \<and> l \<noteq> currentContext t
          then capSwitches (contextSwitches t @
                 [\<lparr>cs_timestamp = newDate (a_timestamp a),
                   fromContext = currentContext t,
                   toContext = l,
                   cs_duration = a_duration a,
                   reason = determineContextSwitchReason a t\<rparr>])
          else contextSwitches t)"
  by (simp add: detectContextSwitch_def Let_def push_def shift_def capSwitches_def
      maxContextSwitches_def split: option.splits)

lemma contextSwitches_recordAction:
  "contextSwitches (recordAction now hours a t) =
     (case newContextOf a of
        None \<Rightarrow> contextSwitches t
      | Some l \<Rightarrow>
          if currentContext t \<noteq> [] \<and> l \<noteq> currentContext t
          then capSwitches (contextSwitches t @
                 [\<lparr>cs_timestamp = newDate (a_timestamp a),
                   fromContext = currentContext t,
                   toContext = l,
                   cs_duration = a_duration a,
                   reason = determineContextSwitchReason a
                              (t\<lparr>lastActivityTime := newDate (a_timestamp a)\<rparr>)\<rparr>])
          else contextSwitches t)"
proof -
  define t2 where "t2 =
    (let t1 = t\<lparr>actionBuffer := push (actionBuffer t) a, lastActivityTime := newDate (a_timestamp a)\<rparr>
     in if real (length (actionBuffer t1)) > bufferSize (config t1)
        then t1\<lparr>actionBuffer := shift (actionBuffer t1)\<rparr> else t1)"
  have frame: "currentContext t2 = currentContext t" "contextSwitches t2 = contextSwitches t"
    "lastActivityTime t2 = lastActivityTime (t\<lparr>lastActivityTime := newDate (a_timestamp a)\<rparr>)"
    "config t2 = config (t\<lparr>lastActivityTime := newDate (a_timestamp a)\<rparr>)"
    by (simp_all add: t2_def Let_def)
  have "contextSwitches (recordAction now hours a t) = contextSwitches (detectContextSwitch a t2)"
    by (simp add: recordAction_def t2_def Let_def)
  also have "\<dots> = (case newContextOf a of
        None \<Rightarrow> contextSwitches t2
      | Some l \<Rightarrow>
          if currentContext t2 \<noteq> [] \<and> l \<noteq> currentContext t2
          then capSwitches (contextSwitches t2 @
                 [\<lparr>cs_timestamp = newDate (a_timestamp a),
                   fromContext = currentContext t2,
                   toContext = l,
                   cs_duration = a_duration a,
                   reason = determineContextSwitchReason a t2\<rparr>])
          else contextSwitches t2)"
    by (rule contextSwitches_detectContextSwitch)
  finally show ?thesis
    by (simp only: frame(1,2) reason_cong[OF frame(3,4)])
qed

lemma currentContext_recordAction:
  "currentContext (recordAction now hours a t) =
     (case newContextOf a of None \<Rightarrow> currentContext t | Some l \<Rightarrow> l)"
  by (simp add: recordAction_def Let_def detectContextSwitch_def split: option.splits)

lemma or_default_nonempty: "d \<noteq> [] \<Longrightarrow> or_default v d \<noteq> []"
  by (simp add: or_default_def split: option.splits)

lemma newContextOf_nonempty: "newContextOf a = Some l \<Longrightarrow> l \<noteq> []"
  by (auto simp: newContextOf_def or_default_nonempty split: ActionType.splits)

lemma new_tracker_context:
  "currentContext (newBehavioralSequenceTracker now0 cfg) = []
   \<and> contextSwitches (newBehavioralSequenceTracker now0 cfg) = []"
  by (simp add: newBehavioralSequenceTracker_def)

lemma three_actions:
  assumes "newContextOf a1 = Some l1" "newContextOf a2 = Some l2" "newContextOf a3 = Some l3"
    and "l1 \<noteq> l2" "l2 \<noteq> l3"
  shows "totalSwitches (getContextSwitchStatistics
           (trackerRun (newBehavioralSequenceTracker now0 cfg)
              [(n1, h1, a1), (n2, h2, a2), (n3, h3, a3)])) = 2"
proof -
  let ?t0 = "newBehavioralSequenceTracker now0 cfg"
  let ?t1 = "recordAction n1 h1 a1 ?t0"
  let ?t2 = "recordAction n2 h2 a2 ?t1"
  let ?t3 = "recordAction n3 h3 a3 ?t2"
  have t0: "currentContext ?t0 = []" "contextSwitches ?t0 = []"
    by (simp_all add: new_tracker_context)
  have ne: "l1 \<noteq> []" "l2 \<noteq> []" using assms newContextOf_nonempty by blast+
  have c1: "currentContext ?t1 = l1" by (simp add: currentContext_recordAction assms)
  have s1: "contextSwitches ?t1 = []" by (subst contextSwitches_recordAction) (simp add: assms t0)
  have c2: "currentContext ?t2 = l2" by (simp add: currentContext_recordAction assms)
  have s2: "length (contextSwitches ?t2) = 1"
    using assms ne
    by (subst contextSwitches_recordAction) (simp add: c1 s1 capSwitches_def)
  have s3: "length (contextSwitches ?t3) = 2"
    using assms ne s2
    by (subst contextSwitches_recordAction) (simp add: c2 capSwitches_def)
  have run: "trackerRun ?t0 [(n1, h1, a1), (n2, h2, a2), (n3, h3, a3)] = ?t3"
    by (simp add: trackerRun_def)
  show ?thesis unfolding run using s3
    by (simp add: getContextSwitchStatistics_def Let_def)
qed

lemma typedTracker_context: "currentContext typedTracker = [] \<and> contextSwitches typedTracker = []"
proof -
  have k: "newContextOf (keystrokeAt 0) = None" by (simp add: newContextOf_def keystrokeAt_def)
  have "currentContext typedTracker = []"
    by (simp add: typedTracker_def currentContext_recordAction k defaultTracker_def new_tracker_context)
  moreover have "contextSwitches typedTracker = []"
    unfolding typedTracker_def
    by (subst contextSwitches_recordAction) (simp add: k defaultTracker_def new_tracker_context)
  ultimately show ?thesis by simp
qed

lemma newContextOf_fileSwitchTo: "name \<noteq> [] \<Longrightarrow> newContextOf (fileSwitchTo name ts) = Some name"
  by (simp add: newContextOf_def fileSwitchTo_def noMetadata_def or_default_def)

lemma newContextOf_contextSwitchTo: "name \<noteq> [] \<Longrightarrow> newContextOf (contextSwitchTo name ts) = Some name"
  by (simp add: newContextOf_def contextSwitchTo_def noMetadata_def or_default_def)

text \<open>
  Claim C5. For every stream of recorded actions, the very first action only establishes
  the initial context and records no context switch, and a context switch is recorded
  exactly when a later action's candidate context label differs from the current context
  label; in particular three sequential context-establishing actions with distinct labels
  give \<open>totalSwitches = 2\<close>.

  The claim fails when the stream starts with a keystroke: a keystroke establishes no
  context, so the file switch that follows it has a candidate label different from the
  current (empty) label and still records no switch; it only establishes the context.
  A keystroke followed by two file switches gives \<open>totalSwitches = 1\<close>.
\<close>

theorem keystroke_first_counterexample:
  "newContextOf (fileSwitchTo ''a.ts'' 1000) = Some ''a.ts''
   \<and> currentContext typedTracker = []
   \<and> ''a.ts'' \<noteq> currentContext typedTracker
   \<and> contextSwitches (recordAction 0 0 (fileSwitchTo ''a.ts'' 1000) typedTracker)
        = contextSwitches typedTracker
   \<and> totalSwitches (getContextSwitchStatistics (trackerRun defaultTracker typeThenSwitch)) = 1"
proof -
  let ?a = "fileSwitchTo ''a.ts'' 1000"
  let ?b = "fileSwitchTo ''b.ts'' 2000"
  let ?t2 = "recordAction 0 0 ?a typedTracker"
  let ?t3 = "recordAction 0 0 ?b ?t2"
  have a: "newContextOf ?a = Some ''a.ts''" by (simp add: newContextOf_fileSwitchTo)
  have b: "newContextOf ?b = Some ''b.ts''" by (simp add: newContextOf_fileSwitchTo)
  have t1: "currentContext typedTracker = []" "contextSwitches typedTracker = []"
    using typedTracker_context by simp_all
  have s2: "contextSwitches ?t2 = []"
    by (subst contextSwitches_recordAction) (simp add: a t1)
  have c2: "currentContext ?t2 = ''a.ts''" by (simp add: currentContext_recordAction a)
  have s3: "length (contextSwitches ?t3) = 1"
    by (subst contextSwitches_recordAction) (simp add: b c2 s2 capSwitches_def)
  have run: "trackerRun defaultTracker typeThenSwitch = ?t3"
    by (simp add: trackerRun_def typeThenSwitch_def typedTracker_def)
  have "totalSwitches (getContextSwitchStatistics ?t3) = 1"
    using s3 by (simp add: getContextSwitchStatistics_def Let_def)
  then show ?thesis by (simp add: a t1 s2 run)
qed

text \<open>
  Claim C5, amended. While no context has been established (the current label is empty),
  an action records no context switch; this covers the very first action of every
  stream, and the first action that carries a candidate label only establishes the
  context. Once a context is established, a context switch is recorded exactly when the
  action's candidate label differs from the current label: the switch from the current
  label to the candidate is appended to the history (capped at 500 entries), and an
  action without a candidate label (a keystroke or a code edit) or with the current label
  records nothing. Three sequential context-establishing actions with distinct
  consecutive labels, recorded by a new tracker, give \<open>totalSwitches = 2\<close>.
\<close>

theorem contextSwitch_recorded_once_established:
  "(currentContext t = [] \<longrightarrow> contextSwitches (recordAction now hours a t) = contextSwitches t)
   \<and> (currentContext t \<noteq> [] \<and> newContextOf a = Some l \<and> l \<noteq> currentContext t \<longrightarrow>
        contextSwitches (recordAction now hours a t) =
          capSwitches (contextSwitches t @
            [\<lparr>cs_timestamp = newDate (a_timestamp a),
              fromContext = currentContext t,
              toContext = l,
              cs_duration = a_duration a,
              reason = determineContextSwitchReason a
                         (t\<lparr>lastActivityTime := newDate (a_timestamp a)\<rparr>)\<rparr>]))
   \<and> (newContextOf a = None \<or> newContextOf a = Some (currentContext t) \<longrightarrow>
        contextSwitches (recordAction now hours a t) = contextSwitches t)
   \<and> contextSwitches (recordAction now hours a (newBehavioralSequenceTracker now0 cfg)) = []
   \<and> (newContextOf a1 = Some l1 \<and> newContextOf a2 = Some l2 \<and> newContextOf a3 = Some l3
        \<and> l1 \<noteq> l2 \<and> l2 \<noteq> l3 \<longrightarrow>
        totalSwitches (getContextSwitchStatistics
          (trackerRun (newBehavioralSequenceTracker now0 cfg)
             [(n1, h1, a1), (n2, h2, a2), (n3, h3, a3)])) = 2)"
proof (intro conjI impI)
  assume "currentContext t = []"
  then show "contextSwitches (recordAction now hours a t) = contextSwitches t"
    by (subst contextSwitches_recordAction) (simp split: option.splits)
next
  assume "currentContext t \<noteq> [] \<and> newContextOf a = Some l \<and> l \<noteq> currentContext t"
  then show "contextSwitches (recordAction now hours a t) =
          capSwitches (contextSwitches t @
            [\<lparr>cs_timestamp = newDate (a_timestamp a),
              fromContext = currentContext t,
              toContext = l,
              cs_duration = a_duration a,
              reason = determineContextSwitchReason a
                         (t\<lparr>lastActivityTime := newDate (a_timestamp a)\<rparr>)\<rparr>])"
    by (subst contextSwitches_recordAction) simp
next
  assume "newContextOf a = None \<or> newContextOf a = Some (currentContext t)"
  then show "contextSwitches (recordAction now hours a t) = contextSwitches t"
    by (subst contextSwitches_recordAction) auto
next
  show "contextSwitches (recordAction now hours a (newBehavioralSequenceTracker now0 cfg)) = []"
    by (subst contextSwitches_recordAction) (simp add: new_tracker_context split: option.splits)
next
  assume "newContextOf a1 = Some l1 \<and> newContextOf a2 = Some l2 \<and> newContextOf a3 = Some l3
        \<and> l1 \<noteq> l2 \<and> l2 \<noteq> l3"
  then show "totalSwitches (getContextSwitchStatistics
          (trackerRun (newBehavioralSequenceTracker now0 cfg)
             [(n1, h1, a1), (n2, h2, a2), (n3, h3, a3)])) = 2"
    by (intro three_actions) blast+
qed

text \<open>
  The example of the specification: the switches to \<open>file2.ts\<close>, \<open>terminal\<close> and
  \<open>file1.ts\<close> give two recorded switches, the first action recording none.
\<close>

theorem contextSwitch_recorded_once_established_witness:
  "currentContext defaultTracker = []
   \<and> contextSwitches (recordAction 0 0 (contextSwitchTo ''file2.ts'' 0) defaultTracker) = []
   \<and> newContextOf (contextSwitchTo ''file2.ts'' 0) = Some ''file2.ts''
   \<and> newContextOf (contextSwitchTo ''terminal'' 1000) = Some ''terminal''
   \<and> newContextOf (contextSwitchTo ''file1.ts'' 2000) = Some ''file1.ts''
   \<and> totalSwitches (getContextSwitchStatistics (trackerRun defaultTracker threeSwitches)) = 2"
proof -
  have n: "newContextOf (contextSwitchTo ''file2.ts'' 0) = Some ''file2.ts''"
    "newContextOf (contextSwitchTo ''terminal'' 1000) = Some ''terminal''"
    "newContextOf (contextSwitchTo ''file1.ts'' 2000) = Some ''file1.ts''"
    by (simp_all add: newContextOf_contextSwitchTo)
  have d: "''file2.ts'' \<noteq> ''terminal''" "''terminal'' \<noteq> ''file1.ts''" by simp_all
  note th = contextSwitch_recorded_once_established
    [of defaultTracker 0 0 "contextSwitchTo ''file2.ts'' 0" "''file2.ts''" 0 noOverride
        "contextSwitchTo ''file2.ts'' 0" "''file2.ts''"
        "contextSwitchTo ''terminal'' 1000" "''terminal''"
        "contextSwitchTo ''file1.ts'' 2000" "''file1.ts''" 0 0 0 0 0 0]
  have first: "contextSwitches (recordAction 0 0 (contextSwitchTo ''file2.ts'' 0) defaultTracker) = []"
    using th by (simp add: defaultTracker_def)
  have total: "totalSwitches (getContextSwitchStatistics (trackerRun defaultTracker threeSwitches)) = 2"
    using th n d by (simp add: defaultTracker_def threeSwitches_def)
  show ?thesis
    using first total n by (simp add: defaultTracker_def new_tracker_context)
qed

subsection \<open>Configuration\<close>











section \<open>The privacy hash\<close>

lemma digit_in: "d < 10 \<Longrightarrow> digit d \<in> set ''0123456789''"
proof -
  assume "d < 10"
  then have "d \<in> {0,1,2,3,4,5,6,7,8,9}" by auto
  then show ?thesis by (auto simp: digit_def)
qed

lemma decimal_digits: "set (decimal n) \<subseteq> set ''0123456789''"
proof (induction n rule: decimal.induct)
  case (1 n)
  show ?case
  proof (cases "n < 10")
    case True
    then show ?thesis using digit_in[of n] by (subst decimal.simps) simp
  next
    case False
    have "n mod 10 < 10" by simp
    then have "digit (n mod 10) \<in> set ''0123456789''" by (rule digit_in)
    then show ?thesis using False 1 by (subst decimal.simps) simp
  qed
qed

lemma set_str: "set (str s) = (\<lambda>c. word_of_nat (of_char c)) ` set s"
  by (simp add: str_def)

lemma hashKey_alphabet: "set (hashKey k) \<subseteq> set (str ''key_0123456789'')"
proof -
  have "set (str (decimal n)) \<subseteq> set (str ''0123456789'')" for n
    unfolding set_str using decimal_digits[of n] by (rule image_mono)
  then show ?thesis
    by (auto simp: hashKey_def set_str)
qed

lemma not_in_token:
  assumes "c \<in> set k" "c \<notin> set (str ''key_0123456789'')"
  shows "\<not> sublist k (hashKey k)"
proof
  assume "sublist k (hashKey k)"
  then have "set k \<subseteq> set (hashKey k)" by (rule set_mono_sublist)
  with assms hashKey_alphabet show False by blast
qed

lemma stored_token: "key (last (keyEvents (processKeystroke e a))) = hashKey (key e)"
  by (simp add: processKeystroke_def Let_def push_def shift_def analyzerBufferSize_def last_tl_snoc)

lemma hashKey_k: "hashKey (str ''k'') = str ''key_107''"
  by (simp add: hashKey_def str_def decimal.simps[of 107] decimal.simps[of 10]
      decimal.simps[of "Suc 0"] digit_def)

lemma hashKey_5: "hashKey (str ''5'') = str ''key_53''"
  by (simp add: hashKey_def str_def decimal.simps[of 53] decimal.simps[of 5] digit_def)

lemma hashKey_a: "hashKey (str ''a'') = str ''key_97''"
  by (simp add: hashKey_def str_def decimal.simps[of 97] decimal.simps[of 9] digit_def)

text \<open>
  Claim C6. The privacy hash is a total, deterministic function of the raw key string:
  repeated calls give an identical token, and the raw key does not appear in the token.

  The raw key can appear in the token. The token of the key \<open>k\<close> is \<open>key_107\<close>, which
  starts with \<open>k\<close>, and the token of the key \<open>5\<close> is \<open>key_53\<close>, which contains \<open>5\<close>.
\<close>

theorem raw_key_in_token_counterexample:
  "hashKey (str ''k'') = str ''key_107''
   \<and> sublist (str ''k'') (hashKey (str ''k''))
   \<and> hashKey (str ''5'') = str ''key_53''
   \<and> sublist (str ''5'') (hashKey (str ''5''))"
proof -
  have "str ''key_107'' = [] @ str ''k'' @ str ''ey_107''" by (simp add: str_def)
  moreover have "str ''key_53'' = str ''key_'' @ str ''5'' @ str ''3''" by (simp add: str_def)
  ultimately show ?thesis unfolding hashKey_k hashKey_5 sublist_def by blast
qed

text \<open>
  Claim C6, amended. \<open>hashKey\<close> is a function of the raw key alone, defined for every
  string: the token that \<open>processKeystroke\<close> stores for an event is \<open>hashKey\<close> of the
  event's key, whatever the state of the analyzer and the other fields of the event, so
  equal keys give equal tokens. The token consists of the characters of \<open>key_\<close> and of
  decimal digits only. A raw key that contains a character other than \<open>k\<close>, \<open>e\<close>, \<open>y\<close>,
  \<open>_\<close> and the decimal digits does not appear in its token.
\<close>

theorem hashKey_token:
  "key (last (keyEvents (processKeystroke e a))) = hashKey (key e)
   \<and> (key e = key e' \<longrightarrow>
        key (last (keyEvents (processKeystroke e a))) = key (last (keyEvents (processKeystroke e' a'))))
   \<and> set (hashKey k) \<subseteq> set (str ''key_0123456789'')
   \<and> ((\<exists>c \<in> set k. c \<notin> set (str ''key_0123456789'')) \<longrightarrow> \<not> sublist k (hashKey k))"
  using stored_token [of e a] stored_token [of e' a'] hashKey_alphabet [of k] not_in_token [of _ k]
  by auto

text \<open>
  The key \<open>a\<close> has the token \<open>key_97\<close>, in which it does not appear; two events with the
  key \<open>a\<close> at different times and in different analyzer states get the same token.
\<close>

theorem hashKey_token_witness:
  "key (keyEventAt 0) = key (keyEventAt 50)
   \<and> key (last (keyEvents (processKeystroke (keyEventAt 0) newKeystrokeTimingAnalyzer)))
       = key (last (keyEvents (processKeystroke (keyEventAt 50) (analyzerRun pauseBurstEvents))))
   \<and> hashKey (str ''a'') = str ''key_97''
   \<and> 97 \<in> set (str ''a'')
   \<and> 97 \<notin> set (str ''key_0123456789'')
   \<and> \<not> sublist (str ''a'') (hashKey (str ''a''))"
proof -
  have same: "key (keyEventAt 0) = key (keyEventAt 50)" by (simp add: keyEventAt_def)
  have m: "(97 :: code_unit) \<in> set (str ''a'')" by (simp add: str_def)
  have nm: "(97 :: code_unit) \<notin> set (str ''key_0123456789'')" by (simp add: str_def)
  note th = hashKey_token [of "keyEventAt 0" newKeystrokeTimingAnalyzer "keyEventAt 50"
      "analyzerRun pauseBurstEvents" "str ''a''"]
  have eq: "key (last (keyEvents (processKeystroke (keyEventAt 0) newKeystrokeTimingAnalyzer)))
       = key (last (keyEvents (processKeystroke (keyEventAt 50) (analyzerRun pauseBurstEvents))))"
    using th same by blast
  have no: "\<not> sublist (str ''a'') (hashKey (str ''a''))"
    using th m nm by blast
  show ?thesis using same eq m nm no hashKey_a by blast
qed


section \<open>Sessions\<close>

lemma digitValue_digit: "d < 10 \<Longrightarrow> digitValue (digit d) = d"
proof -
  assume "d < 10"
  then have "d \<in> {0,1,2,3,4,5,6,7,8,9}" by auto
  then show ?thesis by (auto simp: digit_def digitValue_def)
qed

lemma decimal_value: "foldl (\<lambda>acc c. 10 * acc + digitValue c) 0 (decimal n) = n"
proof (induction n rule: decimal.induct)
  case (1 n)
  show ?case
  proof (cases "n < 10")
    case True
    then show ?thesis by (subst decimal.simps) (simp add: digitValue_digit)
  next
    case False
    then show ?thesis using 1 by (subst decimal.simps) (simp add: digitValue_digit)
  qed
qed

lemma decimal_inj: "decimal m = decimal n \<Longrightarrow> m = n"
  by (metis decimal_value)

lemma separator_split:
  "c \<notin> set xs \<Longrightarrow> c \<notin> set ys \<Longrightarrow> xs @ c # r = ys @ c # s \<Longrightarrow> xs = ys \<and> r = s"
proof (induction xs arbitrary: ys)
  case Nil
  then show ?case by (cases ys) auto
next
  case (Cons x xs)
  then show ?case by (cases ys) auto
qed

lemma generateSessionId_inj:
  "generateSessionId now rnd = generateSessionId now' rnd' \<longleftrightarrow> now = now' \<and> rnd = rnd'"
proof
  assume eq: "generateSessionId now rnd = generateSessionId now' rnd'"
  have "CHR ''_'' \<notin> set (decimal n)" for n using decimal_digits[of n] by auto
  then have "decimal now = decimal now' \<and> rnd = rnd'"
    using eq separator_split[of "CHR ''_''" "decimal now" "decimal now'" rnd rnd']
    by (simp add: generateSessionId_def)
  then show "now = now' \<and> rnd = rnd'" using decimal_inj by blast
qed simp

lemma startNewSession_frame:
  "currentSession (patternStorage (startNewSession now rnd e)) = generateSessionId now rnd
   \<and> keyEvents (keystrokeAnalyzer (startNewSession now rnd e)) = []
   \<and> timingBuffer (keystrokeAnalyzer (startNewSession now rnd e)) = []
   \<and> patterns (patternStorage (startNewSession now rnd e)) = patterns (patternStorage e)
   \<and> metricsHistory (startNewSession now rnd e) = metricsHistory e"
  by (simp add: startNewSession_def analyzer_clearData_def)

lemma metricsCount_filter:
  "metricsCount (getSessionStatistics now e) =
     length (filter (\<lambda>m. sessionId m = currentSession (patternStorage e)) (metricsHistory e))"
  by (simp add: getSessionStatistics_def Let_def)

lemma oneCallEngine_state:
  "currentSession (patternStorage oneCallEngine) = sid0
   \<and> map sessionId (metricsHistory oneCallEngine) = [sid0]"
proof -
  let ?e0 = "newBehavioralMetricsEngine 0 ''4fzyo82mv'' ''user''"
  have a: "length (metricsHistory ?e0) < 1000" "sessionStartTime (patternStorage ?e0) = real (0 :: nat)"
    by (simp_all add: newBehavioralMetricsEngine_def)
  note st = calculateMetrics_step [OF a, of "''4fzyo82mv''" "[]"]
  show ?thesis
    unfolding oneCallEngine_def st
    by (simp add: newBehavioralMetricsEngine_def sid0_def)
qed

text \<open>
  Claim C8. \<open>startNewSession\<close> yields a session id different from the previous one,
  resets \<open>metricsCount\<close> of \<open>getSessionStatistics\<close> to 0, clears the buffers of the keystroke
  analyzer, and leaves the pattern index and the metrics history unchanged.

  The session id is built from the clock reading and a random suffix and from nothing
  else. When the clock reads the same millisecond and the random suffix repeats, the new
  id equals the previous one and the entries of the previous session are still counted.
\<close>

theorem same_session_id_counterexample:
  "currentSession (patternStorage (startNewSession 0 ''4fzyo82mv'' oneCallEngine))
     = currentSession (patternStorage oneCallEngine)
   \<and> metricsCount (getSessionStatistics 0 oneCallEngine) = 1
   \<and> metricsCount (getSessionStatistics 0 (startNewSession 0 ''4fzyo82mv'' oneCallEngine)) = 1"
proof -
  have h: "filter (\<lambda>m. sessionId m = sid0) (metricsHistory oneCallEngine) = metricsHistory oneCallEngine"
    using oneCallEngine_state by (cases "metricsHistory oneCallEngine") auto
  have l: "length (metricsHistory oneCallEngine) = 1"
    using oneCallEngine_state by (metis length_map length_Cons list.size(3) One_nat_def)
  show ?thesis
    using startNewSession_frame [of 0 "''4fzyo82mv''" oneCallEngine] oneCallEngine_state
    by (simp add: metricsCount_filter sid0_def[symmetric] h l)
qed

text \<open>
  Claim C8, amended. \<open>startNewSession\<close> sets the session id to the id generated from the
  clock reading and the random suffix of the call. Two generated ids are equal only when
  both the clock readings and the random suffixes are equal, so the new id differs from
  the previous one whenever the clock reading or the suffix differs from those of the
  previous id. Afterwards \<open>metricsCount\<close> is the number of history entries that carry the
  new id, which is 0 when no entry carries it. The buffers of the keystroke analyzer are
  empty, and the pattern index and the metrics history are unchanged.
\<close>

theorem startNewSession_effect:
  "currentSession (patternStorage (startNewSession now rnd e)) = generateSessionId now rnd
   \<and> (generateSessionId now rnd = generateSessionId now' rnd' \<longleftrightarrow> now = now' \<and> rnd = rnd')
   \<and> metricsCount (getSessionStatistics later (startNewSession now rnd e)) =
        length (filter (\<lambda>m. sessionId m = generateSessionId now rnd) (metricsHistory e))
   \<and> ((\<forall>m \<in> set (metricsHistory e). sessionId m \<noteq> generateSessionId now rnd) \<longrightarrow>
        metricsCount (getSessionStatistics later (startNewSession now rnd e)) = 0)
   \<and> keyEvents (keystrokeAnalyzer (startNewSession now rnd e)) = []
   \<and> timingBuffer (keystrokeAnalyzer (startNewSession now rnd e)) = []
   \<and> patterns (patternStorage (startNewSession now rnd e)) = patterns (patternStorage e)
   \<and> metricsHistory (startNewSession now rnd e) = metricsHistory e"
  by (simp add: startNewSession_frame metricsCount_filter generateSessionId_inj filter_empty_conv)

text \<open>
  A session started one second later with another suffix has a new id and counts no
  entry, while the entry of the previous session stays in the history.
\<close>

theorem startNewSession_effect_witness:
  "currentSession (patternStorage oneCallEngine) = generateSessionId 0 ''4fzyo82mv''
   \<and> currentSession (patternStorage (startNewSession 1000 ''k1x9q0c7e'' oneCallEngine))
       \<noteq> currentSession (patternStorage oneCallEngine)
   \<and> metricsCount (getSessionStatistics 1000 (startNewSession 1000 ''k1x9q0c7e'' oneCallEngine)) = 0
   \<and> length (metricsHistory (startNewSession 1000 ''k1x9q0c7e'' oneCallEngine)) = 1"
proof -
  note th = startNewSession_effect [of 1000 "''k1x9q0c7e''" oneCallEngine 0 "''4fzyo82mv''" 1000]
  have old: "currentSession (patternStorage oneCallEngine) = generateSessionId 0 ''4fzyo82mv''"
    using oneCallEngine_state by (simp add: sid0_def)
  have ne: "generateSessionId 1000 ''k1x9q0c7e'' \<noteq> generateSessionId 0 ''4fzyo82mv''"
    using th by simp
  have ids: "\<forall>m \<in> set (metricsHistory oneCallEngine). sessionId m \<noteq> generateSessionId 1000 ''k1x9q0c7e''"
  proof
    fix m assume "m \<in> set (metricsHistory oneCallEngine)"
    then have "sessionId m \<in> set (map sessionId (metricsHistory oneCallEngine))" by simp
    then have "sessionId m = sid0" using oneCallEngine_state by simp
    then show "sessionId m \<noteq> generateSessionId 1000 ''k1x9q0c7e''"
      using ne by (simp add: sid0_def)
  qed
  have zero: "metricsCount (getSessionStatistics 1000 (startNewSession 1000 ''k1x9q0c7e'' oneCallEngine)) = 0"
    using th ids by blast
  have l: "length (metricsHistory oneCallEngine) = 1"
    using oneCallEngine_state by (metis length_map length_Cons list.size(3) One_nat_def)
  have new: "currentSession (patternStorage (startNewSession 1000 ''k1x9q0c7e'' oneCallEngine))
      = generateSessionId 1000 ''k1x9q0c7e''"
    using th by blast
  have hist: "metricsHistory (startNewSession 1000 ''k1x9q0c7e'' oneCallEngine) = metricsHistory oneCallEngine"
    using th by blast
  show ?thesis using old ne zero l new hist by simp
qed

end
